theory Spec2Isabelle
  imports Main "HOL-Library.AList"
begin

section \<open>The addon registry of TeleFrame (\<open>js/addonInterface.js\<close>)\<close>

text \<open>
  JavaScript strings are modelled as \<^typ>\<open>string\<close>, one \<^typ>\<open>char\<close> per UTF-16 code
  unit; only the code units \<open>0x00\<close> to \<open>0xFF\<close> exist in the model.
\<close>

subsection \<open>Name sanitisation\<close>

text \<open>
  The class \<open>\s\<close> of a JavaScript regular expression, on the code units of the model:
  tab, line feed, vertical tab, form feed, carriage return, space and no-break space.
\<close>

definition isWhiteSpace :: "char \<Rightarrow> bool" where
  "isWhiteSpace c \<longleftrightarrow>
     c = CHR 0x09 \<or> c = CHR 0x0A \<or> c = CHR 0x0B \<or> c = CHR 0x0C \<or> c = CHR 0x0D
     \<or> c = CHR 0x20 \<or> c = CHR 0xA0"

text \<open>
  \<^verbatim>\<open>const removeInvalidAddonNameChars = (addonName) => addonName.replace(/\.\/\s/g, '');\<close>

  The pattern has no character class: it matches the three code units dot, slash,
  white space in a row. A global replace scans from the left; where the pattern
  matches, the three code units are dropped and the scan goes on behind them, elsewhere
  one code unit is kept and the scan moves on by one.
\<close>

fun removeInvalidAddonNameChars :: "string \<Rightarrow> string" where
  "removeInvalidAddonNameChars (a # b # c # rest) =
     (if a = CHR ''.'' \<and> b = CHR ''/'' \<and> isWhiteSpace c
      then removeInvalidAddonNameChars rest
      else a # removeInvalidAddonNameChars (b # c # rest))"
| "removeInvalidAddonNameChars short = short"

subsection \<open>Event vocabularies\<close>

text \<open>Outbound names (\<open>validInputEvents\<close>) are sent to the renderer.\<close>

definition validInputEvents :: "string list" where
  "validInputEvents =
     [''next'', ''previous'', ''pause'', ''play'', ''playPause'', ''newest'', ''delete'',
      ''star'', ''mute'', ''reboot'', ''shutdown'', ''record'', ''askConfirm'', ''askCancel'',
      ''messageBox'', ''imagesUpdated'', ''reloadRenderer'']"

text \<open>Inbound names (\<open>validListenEvents\<close>) may be listened to.\<close>

definition validListenEvents :: "string list" where
  "validListenEvents =
     [''renderer-ready'', ''images-loaded'', ''teleFrame-ready'', ''starImage'',
      ''unstarImage'', ''deleteImage'', ''imageDeleted'', ''removeImageUnseen'', ''newImage'',
      ''paused'', ''muted'', ''recordStarted'', ''recordStopped'', ''recordError'',
      ''changingActiveImage'', ''changedActiveImage'']"


subsection \<open>Thrown values\<close>

text \<open>A name between apostrophes, as the messages print it.\<close>

definition quoted :: "string \<Rightarrow> string" where
  "quoted s = CHR 0x27 # s @ [CHR 0x27]"

text \<open>
  JavaScript can throw any value. A thrown value of the model is an \<open>Error\<close> object,
  with its class and its message, or it is \<open>null\<close> or \<open>undefined\<close> (\<open>Nullish\<close>).
  \<open>AddonError\<close> is the file's own subclass of \<open>Error\<close>; \<open>OtherError\<close> stands for any
  class that is neither \<open>TypeError\<close> nor named here. A thrown value of another kind
  (a string, an object without a stack) is taken for an \<open>OtherError\<close>: it differs in
  the text that gets logged only.
\<close>

datatype thrown =
    TypeError string
  | AddonError string
  | ReferenceError string
  | OtherError string
  | Nullish

text \<open>\<^verbatim>\<open>loadErr instanceof TypeError\<close>, which is false of \<open>null\<close> and \<open>undefined\<close>.\<close>

fun instanceofTypeError :: "thrown \<Rightarrow> bool" where
  "instanceofTypeError (TypeError m) = True"
| "instanceofTypeError e = False"

text \<open>
  \<^verbatim>\<open>error.stack\<close>: for an \<open>Error\<close> object the header line of the stack (the call
  frames behind it are left out; \<open>AddonError\<close> does not override \<open>name\<close>, so its header
  starts with \<open>Error\<close>). \<open>null\<close> and \<open>undefined\<close> have no properties: the read itself
  throws a \<open>TypeError\<close>. Every \<open>catch\<close> block of the file reads \<open>error.stack\<close>.
\<close>

fun stack :: "thrown \<Rightarrow> thrown + string" where
  "stack (TypeError m) = Inr (''TypeError: '' @ m)"
| "stack (AddonError m) = Inr (''Error: '' @ m)"
| "stack (ReferenceError m) = Inr (''ReferenceError: '' @ m)"
| "stack (OtherError m) = Inr (''Error: '' @ m)"
| "stack Nullish = Inl (TypeError (''Cannot read property '' @ quoted ''stack'' @ '' of null''))"

subsection \<open>Scoped loggers\<close>

text \<open>
  The host logger is an external object; the model keeps the calls it receives, each as
  the method called (\<open>info\<close>, \<open>warn\<close>, \<open>error\<close>) and the line passed, and takes it that
  the host logger itself does not throw.
\<close>

type_synonym logLine = "string \<times> string"

text \<open>An array inside a template literal prints as its elements joined by commas.\<close>

fun joinArgs :: "string list \<Rightarrow> string" where
  "joinArgs [] = []"
| "joinArgs [a] = a"
| "joinArgs (a # b # rest) = a @ '','' @ joinArgs (b # rest)"

text \<open>
  \<^verbatim>\<open>
  const getClassLogger = (name, logger, enabledTypes) => {
    const loggerObj = {};
    ['info', 'warn', 'error'].forEach(type => {
      loggerObj[type] = (...args) => {
        if (enabledTypes.indexOf(type) > -1) {
          logger[type](`[${name}] ${args}`);
        }
      }
    });
    loggerObj.log = logger.info
    return loggerObj;
  }
  \<close>
  For the host's logger and an array of types, \<open>getClassLogger name enabledTypes type args\<close>
  is what the call \<open>loggerObj[type](...args)\<close> passes on to the host logger: one line, or
  nothing when the type is not enabled. The registry's logger is of this kind. The
  logger of an addon is made from the properties of an object that a constructor may
  have changed before; it is modelled with the base class below.
\<close>

definition getClassLogger :: "string \<Rightarrow> string list \<Rightarrow> string \<Rightarrow> string list \<Rightarrow> logLine list" where
  "getClassLogger name enabledTypes type args =
     (if type \<in> set enabledTypes then [(type, ''['' @ name @ ''] '' @ joinArgs args)] else [])"

subsection \<open>Configuration values\<close>

text \<open>
  An object is the list of its own properties in the order \<open>Object.keys\<close> gives them
  (names that look like array indices, which JavaScript orders first, are outside the
  model). An own property is read with \<^const>\<open>map_of\<close>, written with
  \<^const>\<open>AList.update\<close> and deleted with \<^const>\<open>AList.delete\<close>.
\<close>

datatype jsValue = VBool bool | VString string | VStrings "string list" | VNull

type_synonym object = "(string \<times> jsValue) list"

text \<open>
  What \<open>config.addonInterface.addons[name]\<close> may hold: an object, \<open>null\<close>, a
  primitive value, of which only its truthiness matters, or a function.
\<close>

datatype cfgValue = CfgObject object | CfgNull | CfgPrimitive bool | CfgFunction

type_synonym addonsConfig = "(string \<times> cfgValue) list"

text \<open>
  \<open>config.addonInterface.addons\<close> is a plain object: a name that is not an own property
  is looked up in \<open>Object.prototype\<close>. Its properties are the methods below and
  \<open>constructor\<close>, all functions, and the accessor \<open>__proto__\<close>, which gives
  \<open>Object.prototype\<close> itself, an object without enumerable properties and without the
  properties read in this file.
\<close>

definition objectPrototype :: "string list" where
  "objectPrototype =
     [''constructor'', ''hasOwnProperty'', ''isPrototypeOf'', ''propertyIsEnumerable'',
      ''toLocaleString'', ''toString'', ''valueOf'', ''__defineGetter__'', ''__defineSetter__'',
      ''__lookupGetter__'', ''__lookupSetter__'']"

text \<open>\<^verbatim>\<open>config.addonInterface.addons[addonName]\<close>; \<open>None\<close> is \<open>undefined\<close>.\<close>

definition lookupAddon :: "addonsConfig \<Rightarrow> string \<Rightarrow> cfgValue option" where
  "lookupAddon cfg addonName =
     (case map_of cfg addonName of
        Some v \<Rightarrow> Some v
      | None \<Rightarrow>
          if addonName \<in> set objectPrototype then Some CfgFunction
          else if addonName = ''__proto__'' then Some (CfgObject [])
          else None)"

text \<open>
  Reading a property of what the lookup gave: \<open>undefined\<close> and \<open>null\<close> have no
  properties and the read throws; a primitive value and a function have none of the
  properties read here (the model does not keep the properties of a function).
\<close>

fun getProperty :: "cfgValue option \<Rightarrow> string \<Rightarrow> thrown + jsValue option" where
  "getProperty None p = Inl (TypeError (''Cannot read property '' @ quoted p @ '' of undefined''))"
| "getProperty (Some CfgNull) p = Inl (TypeError (''Cannot read property '' @ quoted p @ '' of null''))"
| "getProperty (Some (CfgPrimitive t)) p = Inr None"
| "getProperty (Some CfgFunction) p = Inr None"
| "getProperty (Some (CfgObject ob)) p = Inr (map_of ob p)"

text \<open>\<^verbatim>\<open>typeof value === 'object'\<close>, which holds of \<open>null\<close> too and not of a function.\<close>

fun typeofObject :: "cfgValue option \<Rightarrow> bool" where
  "typeofObject (Some (CfgObject ob)) = True"
| "typeofObject (Some CfgNull) = True"
| "typeofObject v = False"

text \<open>Truthiness.\<close>

fun truthy :: "cfgValue option \<Rightarrow> bool" where
  "truthy None = False"
| "truthy (Some CfgNull) = False"
| "truthy (Some (CfgPrimitive t)) = t"
| "truthy (Some CfgFunction) = True"
| "truthy (Some (CfgObject ob)) = True"

record configuration =
  logging :: "string list"
  addons :: addonsConfig

subsection \<open>The base class of addons\<close>

text \<open>
  A callback is external code: the model keeps an identifier for it and whether a call
  of it throws.
\<close>

datatype callback = Callback nat "thrown option"

text \<open>
  The object the loader passes to a constructor,
  \<^verbatim>\<open>{ teleFrameAddonConfig, logger, logTypes, images }\<close>, is changed by the base
  constructor, and the loader may pass the same object to the base constructor a second
  time. It is modelled as an object whose properties hold an entry of the
  configuration, the host's logger, or a value.
\<close>

datatype acValue = Entry cfgValue | HostLogger | Js jsValue

type_synonym addonConfig = "(string \<times> acValue) list"

text \<open>
  An instance of \<open>AddonBase\<close>: what the constructor read from \<open>addonConfig\<close> for
  \<open>_images\<close> and for the logger and the types of \<open>_logger\<close> (\<open>None\<close> is \<open>undefined\<close>),
  the named properties of \<open>listeners\<close>, and \<open>_config\<close>.
\<close>

record AddonBase =
  ab_name :: string
  ab_images :: "acValue option"
  ab_logger :: "acValue option"
  ab_logTypes :: "acValue option"
  ab_listeners :: "(string \<times> callback list) list"
  ab_config :: addonConfig

text \<open>
  The registry. The emitter, the inbound event source and the host logger it refers to
  are external objects: what they receive is kept in the \<open>world\<close> below.
\<close>

record AddonInterface =
  ai_addons :: "AddonBase list"
  ai_images :: "string list"
  ai_listeners :: "string list"
  ai_logging :: "string list"

text \<open>
  The state of the process: the module variable \<open>addonInterfaceObj\<close> (\<open>None\<close> is
  \<open>null\<close>), the lines the host logger received, the calls \<open>emitter.send\<close> received,
  the event names \<open>ipcMain.on\<close> received a handler for, and the callbacks called so
  far with their arguments.
\<close>

record world =
  addonInterfaceObj :: "AddonInterface option"
  hostLog :: "logLine list"
  emitted :: "(string \<times> string list) list"
  installed :: "string list"
  called :: "(nat \<times> string list) list"

text \<open>
  A loadable unit is external code. The model has the three shapes the loader tells
  apart: a class that extends \<open>AddonBase\<close> (its constructor calls \<open>super(config)\<close>,
  then calls methods of \<open>this\<close>, then returns or throws), a class that does not, and a
  plain function of one argument (it calls methods of its argument, then returns or
  throws; the flag says whether it may be used with \<open>new\<close>, which an arrow function may
  not). Each carries its \<open>name\<close> property. Only the base constructor changes the
  object the loader passes.
\<close>

datatype 'a oneOrMany = One 'a | Many "'a list"

fun toArray :: "'a oneOrMany \<Rightarrow> 'a list" where
  "toArray (One x) = [x]"
| "toArray (Many xs) = xs"

datatype step =
    RegisterListener "string oneOrMany" "callback oneOrMany"
  | SendEvent string "string list"

datatype ending = Returns | Throws thrown

datatype addonUnit =
    DerivedClass string "step list" ending
  | ForeignClass string ending
  | PlainFunction string bool "step list" ending

fun unitName :: "addonUnit \<Rightarrow> string" where
  "unitName (DerivedClass n steps e) = n"
| "unitName (ForeignClass n e) = n"
| "unitName (PlainFunction n c steps e) = n"

text \<open>
  What \<open>require\<close> gives for an addon: it throws, or the module's exports are nullish, or
  they are a value without a truthy \<open>addon\<close> property, or they have such a property.
  The value is a function (a unit) or anything else.
\<close>

datatype exported = Callable addonUnit | NotCallable

datatype required =
    RequireThrows thrown
  | ExportsNullish
  | Exports exported
  | ExportsAddon exported

text \<open>
  The host outside the process state: the addon modules on disk, by sanitised name,
  whether \<open>emitter.send\<close> throws on a call, and the names of the properties of
  \<open>Array.prototype\<close> on the engine (its methods and \<open>constructor\<close>, all functions),
  which differ between the versions of the language.
\<close>

record host =
  requireAddon :: "string \<Rightarrow> required"
  emitterSend :: "string \<Rightarrow> string list \<Rightarrow> thrown option"
  arrayPrototype :: "string list"

text \<open>
  \<^verbatim>\<open>
  const addonConfig = {
    teleFrameAddonConfig: config.addonInterface.addons[addonName],
    logger: logger,
    logTypes: config.addonInterface.logging,
    images: images,
  };
  \<close>
\<close>

definition newAddonConfig :: "cfgValue option \<Rightarrow> string list \<Rightarrow> string list \<Rightarrow> addonConfig" where
  "newAddonConfig entry types imgs =
     (case entry of None \<Rightarrow> [] | Some v \<Rightarrow> [(''teleFrameAddonConfig'', Entry v)])
     @ [(''logger'', HostLogger), (''logTypes'', Js (VStrings types)), (''images'', Js (VStrings imgs))]"

text \<open>
  \<^verbatim>\<open>
  delete addonConfig.images;
  delete addonConfig.logger;
  Object.assign(addonConfig, addonConfig.teleFrameAddonConfig);
  delete addonConfig.teleFrameAddonConfig;
  \<close>
  \<open>Object.assign\<close> copies the own enumerable properties of its source, in their order;
  a source that is not an object of the configuration has none in the model. An
  assignment to the name \<open>__proto__\<close> makes no property.
\<close>

fun ownProperties :: "acValue option \<Rightarrow> object" where
  "ownProperties (Some (Entry (CfgObject ob))) = ob"
| "ownProperties v = []"

definition normalized :: "addonConfig \<Rightarrow> addonConfig" where
  "normalized c =
     AList.delete ''teleFrameAddonConfig''
       (fold (\<lambda>(k, v). AList.update k (Js v))
          (filter (\<lambda>(k, v). k \<noteq> ''__proto__'') (ownProperties (map_of c ''teleFrameAddonConfig'')))
          (AList.delete ''logger'' (AList.delete ''images'' c)))"

text \<open>
  \<^verbatim>\<open>loggerObj.log = logger.info\<close> in \<open>getClassLogger\<close>: the read throws when the
  logger is \<open>undefined\<close> or \<open>null\<close>.
\<close>

fun readInfo :: "acValue option \<Rightarrow> thrown option" where
  "readInfo None = Some (TypeError (''Cannot read property '' @ quoted ''info'' @ '' of undefined''))"
| "readInfo (Some (Js VNull)) = Some (TypeError (''Cannot read property '' @ quoted ''info'' @ '' of null''))"
| "readInfo (Some (Entry CfgNull)) = Some (TypeError (''Cannot read property '' @ quoted ''info'' @ '' of null''))"
| "readInfo (Some v) = None"

text \<open>
  \<^verbatim>\<open>
  constructor(addonConfig, loggerName) {
    if (addonInterfaceObj === null) {
      throw new AddonError('AddonInterface was not initialized.');
    }
    this._name = loggerName || this.constructor.name;
    this._images = addonConfig.images;
    this._logger = getClassLogger(`addon ${this.name}`, addonConfig.logger, addonConfig.logTypes);
    this.listeners = [];
    this._config;
    delete addonConfig.images;
    delete addonConfig.logger;
    Object.assign(addonConfig, addonConfig.teleFrameAddonConfig);
    delete addonConfig.teleFrameAddonConfig;
    this._config = addonConfig;
  }
  \<close>
  The second argument is \<open>None\<close> when the constructor is reached through \<open>super(config)\<close>;
  the third is \<open>this.constructor.name\<close>. The result is the instance or the exception,
  and \<open>addonConfig\<close> as the constructor leaves it.
\<close>

definition newAddonBase :: "addonConfig \<Rightarrow> string option \<Rightarrow> string \<Rightarrow> world \<Rightarrow> (thrown + AddonBase) \<times> addonConfig" where
  "newAddonBase c loggerName constructorName w =
     (if addonInterfaceObj w = None then (Inl (AddonError ''AddonInterface was not initialized.''), c)
      else
        (case readInfo (map_of c ''logger'') of
           Some err \<Rightarrow> (Inl err, c)
         | None \<Rightarrow>
             (Inr \<lparr> ab_name = (case loggerName of
                                  None \<Rightarrow> constructorName
                                | Some n \<Rightarrow> if n = [] then constructorName else n),
                     ab_images = map_of c ''images'',
                     ab_logger = map_of c ''logger'',
                     ab_logTypes = map_of c ''logTypes'',
                     ab_listeners = [],
                     ab_config = normalized c \<rparr>,
              normalized c)))"

text \<open>
  The addon's own logger, \<^verbatim>\<open>getClassLogger(`addon ${this.name}`, addonConfig.logger, addonConfig.logTypes)\<close>,
  called as \<open>this.logger[type](...args)\<close>.

  \<^verbatim>\<open>enabledTypes.indexOf(type) > -1\<close>: an array has the type as an element or not; in
  a string, \<open>indexOf\<close> looks for the type as a part of it; any other value has no
  \<open>indexOf\<close> to call.
\<close>

fun occursIn :: "string \<Rightarrow> string \<Rightarrow> bool" where
  "occursIn t [] = (t = [])"
| "occursIn t (c # s) = (take (length t) (c # s) = t \<or> occursIn t s)"

fun indexOfFound :: "acValue option \<Rightarrow> string \<Rightarrow> thrown + bool" where
  "indexOfFound (Some (Js (VStrings types))) type = Inr (type \<in> set types)"
| "indexOfFound (Some (Js (VString s))) type = Inr (occursIn type s)"
| "indexOfFound v type = Inl (TypeError ''enabledTypes.indexOf is not a function'')"

text \<open>
  \<^verbatim>\<open>logger[type](`[${name}] ${args}`)\<close>: the host's logger takes the line; a value that
  an entry of the configuration put in its place has no such method.
\<close>

definition addonLog :: "AddonBase \<Rightarrow> string \<Rightarrow> string list \<Rightarrow> world \<Rightarrow> thrown option \<times> world" where
  "addonLog a type args w =
     (case indexOfFound (ab_logTypes a) type of
        Inl err \<Rightarrow> (Some err, w)
      | Inr found \<Rightarrow>
          if \<not> found then (None, w)
          else if ab_logger a = Some HostLogger
          then (None, w \<lparr> hostLog := hostLog w @ [(type, ''['' @ ''addon '' @ ab_name a @ ''] '' @ joinArgs args)] \<rparr>)
          else (Some (TypeError ''logger[type] is not a function''), w))"

text \<open>
  \<^verbatim>\<open>
  registerListener(eventName, callbacks) {
    if (!Array.isArray(eventName)) {
      eventName = [eventName];
    }
    eventName.forEach(name => {
      if (!this.listeners[name]) {
        this.listeners[name] = [];
      }
      if (!Array.isArray(callbacks)) {
        callbacks = [callbacks];
      }
      this.listeners[name].push(...callbacks);
    });
  }
  \<close>
  \<open>this.listeners\<close> is an array used as a dictionary; the model keeps its named
  properties in the order they were added (names that look like array indices are
  outside the model). A name that every array has as a property is not free:
  \<open>length\<close> holds a number, the names of \<open>Array.prototype\<close> and of
  \<open>Object.prototype\<close> hold functions, and the call of \<open>push\<close> on either throws a
  \<open>TypeError\<close>. Under \<open>__proto__\<close> an array has \<open>Array.prototype\<close>, itself an array:
  the callbacks are pushed onto it and the instance gets no property.
\<close>

definition arrayHas :: "host \<Rightarrow> string \<Rightarrow> bool" where
  "arrayHas h name \<longleftrightarrow>
     name = ''length'' \<or> name \<in> set (arrayPrototype h) \<or> name \<in> set objectPrototype"

definition pushCallbacks :: "host \<Rightarrow> callback list \<Rightarrow> string \<Rightarrow> AddonBase \<Rightarrow> thrown + AddonBase" where
  "pushCallbacks h cbs name a =
     (if arrayHas h name then Inl (TypeError ''this.listeners[name].push is not a function'')
      else if name = ''__proto__'' then Inr a
      else
        (case map_of (ab_listeners a) name of
           None \<Rightarrow> Inr (a \<lparr> ab_listeners := ab_listeners a @ [(name, cbs)] \<rparr>)
         | Some old \<Rightarrow> Inr (a \<lparr> ab_listeners := AList.update name (old @ cbs) (ab_listeners a) \<rparr>)))"

text \<open>The \<open>forEach\<close> over the names: an exception ends it.\<close>

fun registerEach :: "host \<Rightarrow> callback list \<Rightarrow> string list \<Rightarrow> AddonBase \<Rightarrow> thrown option \<times> AddonBase" where
  "registerEach h cbs [] a = (None, a)"
| "registerEach h cbs (name # names) a =
     (case pushCallbacks h cbs name a of
        Inl err \<Rightarrow> (Some err, a)
      | Inr a' \<Rightarrow> registerEach h cbs names a')"

definition registerListener :: "host \<Rightarrow> string oneOrMany \<Rightarrow> callback oneOrMany \<Rightarrow> AddonBase \<Rightarrow> thrown option \<times> AddonBase" where
  "registerListener h eventName callbacks a =
     registerEach h (toArray callbacks) (toArray eventName) a"

text \<open>
  \<^verbatim>\<open>
  sendEvent(eventName, ...args) {
    if (validInputEvents.indexOf(eventName) > -1) {
      try {
        addonInterfaceObj.emitter.send(eventName, ...args);
      } catch(error) {
        this.logger.error(`Error send input event ${eventName}!\n`, error.stack);
      }
    } else {
      this.logger.warn(`sendEvent: Ignored invalid eventName '${eventName}'!`)
    }
  }
  \<close>
  The result is the exception that leaves the method, if any, and the new state. The
  \<open>catch\<close> block reads \<open>error.stack\<close> before it calls the logger; an exception of the
  block leaves the method.
\<close>

definition sendFailed :: "AddonBase \<Rightarrow> string \<Rightarrow> thrown \<Rightarrow> world \<Rightarrow> thrown option \<times> world" where
  "sendFailed a eventName err w =
     (case stack err of
        Inl stackErr \<Rightarrow> (Some stackErr, w)
      | Inr s \<Rightarrow> addonLog a ''error'' [''Error send input event '' @ eventName @ ''!\<newline>'', s] w)"

definition sendEvent :: "host \<Rightarrow> AddonBase \<Rightarrow> string \<Rightarrow> string list \<Rightarrow> world \<Rightarrow> thrown option \<times> world" where
  "sendEvent h a eventName args w =
     (if eventName \<in> set validInputEvents then
        (case addonInterfaceObj w of
           None \<Rightarrow> sendFailed a eventName (TypeError (''Cannot read property '' @ quoted ''emitter'' @ '' of null'')) w
         | Some reg \<Rightarrow>
             (let w' = w \<lparr> emitted := emitted w @ [(eventName, args)] \<rparr> in
              case emitterSend h eventName args of
                None \<Rightarrow> (None, w')
              | Some err \<Rightarrow> sendFailed a eventName err w'))
      else
        addonLog a ''warn'' [''sendEvent: Ignored invalid eventName '' @ quoted eventName @ ''!''] w)"

text \<open>The calls a unit makes on an addon instance, in order, up to the first that throws.\<close>

fun runSteps :: "host \<Rightarrow> step list \<Rightarrow> AddonBase \<Rightarrow> world \<Rightarrow> thrown option \<times> AddonBase \<times> world" where
  "runSteps h [] a w = (None, a, w)"
| "runSteps h (RegisterListener eventName callbacks # rest) a w =
     (case registerListener h eventName callbacks a of
        (Some err, a') \<Rightarrow> (Some err, a', w)
      | (None, a') \<Rightarrow> runSteps h rest a' w)"
| "runSteps h (SendEvent eventName args # rest) a w =
     (case sendEvent h a eventName args w of
        (Some err, w') \<Rightarrow> (Some err, a, w')
      | (None, w') \<Rightarrow> runSteps h rest a w')"

subsection \<open>The loader\<close>

text \<open>
  The registry's own logger:
  \<^verbatim>\<open>getClassLogger(this.constructor.name, logger, config.addonInterface.logging)\<close>.
\<close>

definition interfaceLog :: "string list \<Rightarrow> string \<Rightarrow> string list \<Rightarrow> world \<Rightarrow> world" where
  "interfaceLog enabledTypes type args w =
     w \<lparr> hostLog := hostLog w @ getClassLogger ''AddonInterface'' enabledTypes type args \<rparr>"

text \<open>
  \<^verbatim>\<open>
  AddonClass = require(`${__dirname}/../addons/${addonName}`);
  if (AddonClass.addon) {
    AddonClass = AddonClass.addon;
  }
  if (typeof AddonClass !== 'function') {
    throw new AddonError('Invalid addon declaration! Requires class or function.');
  }
  \<close>
\<close>

fun requireUnit :: "required \<Rightarrow> thrown + addonUnit" where
  "requireUnit (RequireThrows err) = Inl err"
| "requireUnit ExportsNullish = Inl (TypeError (''Cannot read property '' @ quoted ''addon'' @ '' of undefined''))"
| "requireUnit (Exports (Callable u)) = Inr u"
| "requireUnit (ExportsAddon (Callable u)) = Inr u"
| "requireUnit other = Inl (AddonError ''Invalid addon declaration! Requires class or function.'')"

text \<open>What \<open>new\<close> gives when it returns: an instance of \<open>AddonBase\<close> or some other object.\<close>

datatype newAddon = AddonInstance AddonBase | OtherObject

text \<open>
  \<^verbatim>\<open>newAddon = new AddonClass(addonConfig);\<close>

  A class that extends \<open>AddonBase\<close> runs the base constructor, which changes
  \<open>addonConfig\<close>, and then its own calls. An arrow function is no constructor. Under
  \<open>new\<close>, any other plain function runs with \<open>addonConfig\<close> as its argument, a plain
  object without the methods of \<open>AddonBase\<close>: the first method call on it throws a
  \<open>TypeError\<close>; with no such call the function body ends as it ends, and \<open>new\<close> gives
  the fresh object, which is no \<open>AddonBase\<close>. The result comes with \<open>addonConfig\<close> as
  the call leaves it.
\<close>

fun construct :: "host \<Rightarrow> addonConfig \<Rightarrow> addonUnit \<Rightarrow> world \<Rightarrow> (thrown + newAddon) \<times> addonConfig \<times> world" where
  "construct h c (DerivedClass n steps e) w =
     (case newAddonBase c None n w of
        (Inl err, c') \<Rightarrow> (Inl err, c', w)
      | (Inr a, c') \<Rightarrow>
          (case runSteps h steps a w of
             (Some err, a', w') \<Rightarrow> (Inl err, c', w')
           | (None, a', w') \<Rightarrow>
               (case e of
                  Returns \<Rightarrow> (Inr (AddonInstance a'), c', w')
                | Throws err \<Rightarrow> (Inl err, c', w'))))"
| "construct h c (ForeignClass n e) w =
     (case e of Returns \<Rightarrow> (Inr OtherObject, c, w) | Throws err \<Rightarrow> (Inl err, c, w))"
| "construct h c (PlainFunction n constructible steps e) w =
     (if \<not> constructible then (Inl (TypeError ''AddonClass is not a constructor''), c, w)
      else if steps \<noteq> [] then (Inl (TypeError ''addon method is not a function''), c, w)
      else (case e of Returns \<Rightarrow> (Inr OtherObject, c, w) | Throws err \<Rightarrow> (Inl err, c, w)))"

text \<open>
  \<^verbatim>\<open>AddonClass(this);\<close>

  A class cannot be called without \<open>new\<close>; a plain function makes its calls on the
  instance it is given.
\<close>

fun invoke :: "host \<Rightarrow> addonUnit \<Rightarrow> AddonBase \<Rightarrow> world \<Rightarrow> thrown option \<times> AddonBase \<times> world" where
  "invoke h (PlainFunction n constructible steps e) a w =
     (case runSteps h steps a w of
        (Some err, a', w') \<Rightarrow> (Some err, a', w')
      | (None, a', w') \<Rightarrow>
          (case e of Returns \<Rightarrow> (None, a', w') | Throws err \<Rightarrow> (Some err, a', w')))"
| "invoke h u a w = (Some (TypeError ''Class constructor cannot be invoked without new''), a, w)"

text \<open>
  \<^verbatim>\<open>
  newAddon = new (class extends AddonBase {
    constructor(config, loggerName) {
      super(config, loggerName);
      // execute exported addon function
      AddonClass(this);
    }
  })(addonConfig, AddonClass.name || addonName);
  \<close>
  The class expression has no name of its own. The base constructor gets \<open>addonConfig\<close>
  as the failed \<open>new AddonClass(addonConfig)\<close> left it: where that call ran the base
  constructor before it threw, the properties \<open>logger\<close> and \<open>images\<close> are those of the
  addon's entry, if it has them, and the read of \<open>logger.info\<close> throws if it has no
  logger.
\<close>

definition functionStyleName :: "addonUnit \<Rightarrow> string \<Rightarrow> string" where
  "functionStyleName AddonClass addonName =
     (if unitName AddonClass = [] then addonName else unitName AddonClass)"

definition newFunctionStyle :: "host \<Rightarrow> addonConfig \<Rightarrow> addonUnit \<Rightarrow> string \<Rightarrow> world \<Rightarrow> (thrown + newAddon) \<times> world" where
  "newFunctionStyle h c AddonClass addonName w =
     (case newAddonBase c (Some (functionStyleName AddonClass addonName)) [] w of
        (Inl err, c') \<Rightarrow> (Inl err, w)
      | (Inr a, c') \<Rightarrow>
          (case invoke h AddonClass a w of
             (Some err, a', w') \<Rightarrow> (Inl err, w')
           | (None, a', w') \<Rightarrow> (Inr (AddonInstance a'), w')))"

text \<open>
  \<^verbatim>\<open>
  try {
    newAddon = new AddonClass(addonConfig);
  } catch(loadErr) {
    if (loadErr instanceof TypeError) {
      newAddon = new (class extends AddonBase { ... })(addonConfig, AddonClass.name || addonName);
    } else {
      throw loadErr;
    }
  }
  \<close>
\<close>

definition createAddon :: "host \<Rightarrow> addonConfig \<Rightarrow> addonUnit \<Rightarrow> string \<Rightarrow> world \<Rightarrow> (thrown + newAddon) \<times> world" where
  "createAddon h c AddonClass addonName w =
     (case construct h c AddonClass w of
        (Inr newAddon, c', w') \<Rightarrow> (Inr newAddon, w')
      | (Inl loadErr, c', w') \<Rightarrow>
          (if instanceofTypeError loadErr then newFunctionStyle h c' AddonClass addonName w'
           else (Inl loadErr, w')))"

text \<open>
  \<^verbatim>\<open>
  this.addons.push(newAddon);
  Object.keys(newAddon.listeners).forEach(eventName => {
    if (this.listeners.indexOf(eventName) === -1) {
        this.listeners.push(eventName);
    }
  });
  \<close>
  \<open>this\<close> is the object \<open>addonInterfaceObj\<close> refers to.
\<close>

definition pushListener :: "string \<Rightarrow> string list \<Rightarrow> string list" where
  "pushListener eventName ls = (if eventName \<in> set ls then ls else ls @ [eventName])"

definition pushAddon :: "AddonBase \<Rightarrow> AddonInterface \<Rightarrow> AddonInterface" where
  "pushAddon newAddon this =
     this \<lparr> ai_addons := ai_addons this @ [newAddon],
            ai_listeners := fold pushListener (map fst (ab_listeners newAddon)) (ai_listeners this) \<rparr>"

definition updateInterface :: "(AddonInterface \<Rightarrow> AddonInterface) \<Rightarrow> world \<Rightarrow> world" where
  "updateInterface f w = w \<lparr> addonInterfaceObj := map_option f (addonInterfaceObj w) \<rparr>"

text \<open>
  The \<open>try\<close> block of the loader with its \<open>catch\<close>:
  \<^verbatim>\<open>
  try {
    ... require, construct ...
    if (newAddon instanceof AddonBase) {
      ... push ...
    } else {
      throw new AddonError(`Invalid class declaration for addon '${addonName}'! The class must extend the AddonBase class.`);
    }
    this.logger.info(`Successfully loaded addon '${addonName}'.`);
  } catch(error) {
    this.logger.error(`Error initialize addon '${addonName}'! Addon was disabled.\n`, error.stack);
  }
  \<close>
  The \<open>catch\<close> block reads \<open>error.stack\<close> before it calls the logger; an exception of
  the block leaves the loop and the constructor.
\<close>

definition initializeFailed :: "configuration \<Rightarrow> string \<Rightarrow> thrown \<Rightarrow> world \<Rightarrow> thrown option \<times> world" where
  "initializeFailed cfg addonName err w =
     (case stack err of
        Inl stackErr \<Rightarrow> (Some stackErr, w)
      | Inr s \<Rightarrow>
          (None, interfaceLog (logging cfg) ''error''
                   [''Error initialize addon '' @ quoted addonName @ ''! Addon was disabled.\<newline>'', s] w))"

definition loadAddon :: "host \<Rightarrow> configuration \<Rightarrow> string list \<Rightarrow> string \<Rightarrow> world \<Rightarrow> thrown option \<times> world" where
  "loadAddon h cfg imgs addonName w =
     (let c = newAddonConfig (lookupAddon (addons cfg) addonName) (logging cfg) imgs
      in case requireUnit (requireAddon h addonName) of
           Inl err \<Rightarrow> initializeFailed cfg addonName err w
         | Inr AddonClass \<Rightarrow>
             (case createAddon h c AddonClass addonName w of
                (Inl err, w') \<Rightarrow> initializeFailed cfg addonName err w'
              | (Inr OtherObject, w') \<Rightarrow>
                  initializeFailed cfg addonName
                    (AddonError (''Invalid class declaration for addon '' @ quoted addonName
                       @ ''! The class must extend the AddonBase class.'')) w'
              | (Inr (AddonInstance newAddon), w') \<Rightarrow>
                  (None, interfaceLog (logging cfg) ''info''
                           [''Successfully loaded addon '' @ quoted addonName @ ''.'']
                           (updateInterface (pushAddon newAddon) w'))))"

text \<open>
  The body of the loop over \<open>Object.keys(config.addonInterface.addons)\<close>. An exception
  that leaves it leaves the constructor.
  \<^verbatim>\<open>
  addonName = removeInvalidAddonNameChars(addonName);
  if (config.addonInterface.addons[addonName].enabled === false) {
    this.logger.warn(`Addon ${addonName} disabled in config.`);
    return false;
  }
  if (addonName !== 'addonInterface' && typeof config.addonInterface.addons[addonName] === 'object') {
    ...
  }
  \<close>
\<close>

definition loadConfigured :: "host \<Rightarrow> configuration \<Rightarrow> string list \<Rightarrow> string \<Rightarrow> world \<Rightarrow> thrown option \<times> world" where
  "loadConfigured h cfg imgs key w =
     (let addonName = removeInvalidAddonNameChars key in
      case getProperty (lookupAddon (addons cfg) addonName) ''enabled'' of
        Inl err \<Rightarrow> (Some err, w)
      | Inr enabled \<Rightarrow>
          if enabled = Some (VBool False)
          then (None, interfaceLog (logging cfg) ''warn'' [''Addon '' @ addonName @ '' disabled in config.''] w)
          else if addonName \<noteq> ''addonInterface'' \<and> typeofObject (lookupAddon (addons cfg) addonName)
          then loadAddon h cfg imgs addonName w
          else (None, w))"

fun loadAddons :: "host \<Rightarrow> configuration \<Rightarrow> string list \<Rightarrow> string list \<Rightarrow> world \<Rightarrow> thrown option \<times> world" where
  "loadAddons h cfg imgs [] w = (None, w)"
| "loadAddons h cfg imgs (key # keys) w =
     (case loadConfigured h cfg imgs key w of
        (Some err, w') \<Rightarrow> (Some err, w')
      | (None, w') \<Rightarrow> loadAddons h cfg imgs keys w')"

subsection \<open>The registry: construction and dispatch\<close>

text \<open>
  \<^verbatim>\<open>
  this.listeners.forEach(eventName => {
    if (validListenEvents.indexOf(eventName) > -1) {
      // install listener
      ipcMain.on(eventName, (event, ...args) => {
        this.executeEventCallbacks(eventName, ...args);
      });
      this.logger.info(`Installed listener '${eventName}'`);
    } else {
      this.logger.warn(`Ignore definition for unknown event listener: '${eventName}'! Use one of '${validListenEvents}'`);
    }
  });
  \<close>
\<close>

definition installListener :: "string list \<Rightarrow> string \<Rightarrow> world \<Rightarrow> world" where
  "installListener enabledTypes eventName w =
     (if eventName \<in> set validListenEvents
      then interfaceLog enabledTypes ''info'' [''Installed listener '' @ quoted eventName]
             (w \<lparr> installed := installed w @ [eventName] \<rparr>)
      else interfaceLog enabledTypes ''warn''
             [''Ignore definition for unknown event listener: '' @ quoted eventName
                @ ''! Use one of '' @ quoted (joinArgs validListenEvents)] w)"

definition installListeners :: "string list \<Rightarrow> string list \<Rightarrow> world \<Rightarrow> world" where
  "installListeners enabledTypes eventNames w = fold (installListener enabledTypes) eventNames w"

text \<open>\<open>this.listeners\<close>, read through \<open>addonInterfaceObj\<close>.\<close>

definition interfaceListeners :: "world \<Rightarrow> string list" where
  "interfaceListeners w = (case addonInterfaceObj w of None \<Rightarrow> [] | Some this \<Rightarrow> ai_listeners this)"

text \<open>
  The constructor \<open>AddonInterface(images, logger, emitter, ipcMain, config)\<close>. The logger,
  the emitter and \<open>ipcMain\<close> are the host's; \<open>config.addonInterface\<close> is the
  \<open>configuration\<close>. The module variable is set before the addons are loaded, so it
  stays set when the loader throws.
  \<^verbatim>\<open>
  if (addonInterfaceObj !== null) {
    throw new AddonError("Only one instance of the AddonInterface-class is allowed.");
  }
  addonInterfaceObj = this;
  this.addons = [];
  ...
  this.logger.info('Load addons...')
  Object.keys(config.addonInterface.addons).forEach(addonName => { ... });
  this.logger.info('Initialize addons...');
  this.listeners.forEach(eventName => { ... });
  this.logger.info('Addons loaded and initialized');
  \<close>
\<close>

definition singletonViolation :: thrown where
  "singletonViolation = AddonError ''Only one instance of the AddonInterface-class is allowed.''"

definition newAddonInterface :: "host \<Rightarrow> string list \<Rightarrow> configuration \<Rightarrow> world \<Rightarrow> thrown option \<times> world" where
  "newAddonInterface h imgs cfg w =
     (if addonInterfaceObj w \<noteq> None then (Some singletonViolation, w)
      else
        (let this = \<lparr> ai_addons = [], ai_images = imgs, ai_listeners = [], ai_logging = logging cfg \<rparr>;
             w1 = w \<lparr> addonInterfaceObj := Some this \<rparr>;
             w2 = interfaceLog (logging cfg) ''info'' [''Load addons...''] w1
         in case loadAddons h cfg imgs (map fst (addons cfg)) w2 of
              (Some err, w3) \<Rightarrow> (Some err, w3)
            | (None, w3) \<Rightarrow>
                (let w4 = interfaceLog (logging cfg) ''info'' [''Initialize addons...''] w3;
                     w5 = installListeners (logging cfg) (interfaceListeners w4) w4
                 in (None, interfaceLog (logging cfg) ''info'' [''Addons loaded and initialized''] w5))))"

text \<open>
  \<^verbatim>\<open>
  static initAddonInterface(images, logger, emitter, ipcMain, config) {
    if (addonInterfaceObj !== null) {
      throw new AddonError("Only one instance of the AddonInterface-class is allowed.");
    }
    new AddonInterface(images, logger, emitter, ipcMain, config);
    return addonInterfaceObj;
  }
  \<close>
  The value returned is the module variable, \<open>None\<close> for \<open>null\<close>.
\<close>

definition initAddonInterface :: "host \<Rightarrow> string list \<Rightarrow> configuration \<Rightarrow> world \<Rightarrow> (thrown + AddonInterface option) \<times> world" where
  "initAddonInterface h imgs cfg w =
     (if addonInterfaceObj w \<noteq> None then (Inl singletonViolation, w)
      else
        (case newAddonInterface h imgs cfg w of
           (Some err, w') \<Rightarrow> (Inl err, w')
         | (None, w') \<Rightarrow> (Inr (addonInterfaceObj w'), w')))"

text \<open>
  \<^verbatim>\<open>addon.listeners[eventName].forEach(callback => callback(...args));\<close>

  A callback that throws ends the \<open>forEach\<close>.
\<close>

fun runCallbacks :: "callback list \<Rightarrow> string list \<Rightarrow> world \<Rightarrow> thrown option \<times> world" where
  "runCallbacks [] args w = (None, w)"
| "runCallbacks (Callback i outcome # rest) args w =
     (let w' = w \<lparr> called := called w @ [(i, args)] \<rparr> in
      case outcome of
        Some err \<Rightarrow> (Some err, w')
      | None \<Rightarrow> runCallbacks rest args w')"

text \<open>
  \<^verbatim>\<open>
  executeEventCallbacks(eventName, ...args) {
    if (this.listeners.indexOf(eventName) > - 1) {
      this.addons.forEach(addon => {
        if (Array.isArray(addon.listeners[eventName])) {
          try {
            addon.listeners[eventName].forEach(callback => callback(...args));
          } catch(error) {
            this.logger.error(`Error execute callback for addon ${addon.name} event ${eventName}!\n`, error.stack);
          }
        }
      });
    }
  }
  \<close>
  The named properties of \<open>addon.listeners\<close> that the model keeps are arrays. The
  \<open>catch\<close> block reads \<open>error.stack\<close> before it calls the logger; an exception of the
  block leaves the loop over the addons and the method.
\<close>

definition executeAddonCallbacks :: "string list \<Rightarrow> string \<Rightarrow> string list \<Rightarrow> AddonBase \<Rightarrow> world \<Rightarrow> thrown option \<times> world" where
  "executeAddonCallbacks enabledTypes eventName args addon w =
     (case map_of (ab_listeners addon) eventName of
        None \<Rightarrow> (None, w)
      | Some callbacks \<Rightarrow>
          (case runCallbacks callbacks args w of
             (None, w') \<Rightarrow> (None, w')
           | (Some err, w') \<Rightarrow>
               (case stack err of
                  Inl stackErr \<Rightarrow> (Some stackErr, w')
                | Inr s \<Rightarrow>
                    (None, interfaceLog enabledTypes ''error''
                             [''Error execute callback for addon '' @ ab_name addon @ '' event '' @ eventName
                                @ ''!\<newline>'', s] w'))))"

fun executeForEach :: "string list \<Rightarrow> string \<Rightarrow> string list \<Rightarrow> AddonBase list \<Rightarrow> world \<Rightarrow> thrown option \<times> world" where
  "executeForEach enabledTypes eventName args [] w = (None, w)"
| "executeForEach enabledTypes eventName args (addon # rest) w =
     (case executeAddonCallbacks enabledTypes eventName args addon w of
        (Some err, w') \<Rightarrow> (Some err, w')
      | (None, w') \<Rightarrow> executeForEach enabledTypes eventName args rest w')"

subsection \<open>The control surface\<close>

text \<open>
  \<open>addonControl\<close> works on the configuration module's \<open>config.addonInterface.addons\<close>,
  prints to the console and calls \<open>config.writeConfig()\<close>. The model keeps the console
  calls (method and arguments) and, for each call of \<open>writeConfig\<close>, the addons section
  as it stood at the call.
\<close>

record control =
  config :: addonsConfig
  console :: "(string \<times> string list) list"
  written :: "addonsConfig list"

text \<open>
  What the method takes from outside: \<open>__filename\<close>, \<open>__dirname\<close>, the identifier \<open>path\<close>
  (the file has no declaration of it, so it is whatever the global scope binds to that
  name: \<open>None\<close> when nothing is bound, else the \<open>resolve\<close> of the bound module),
  \<open>fs.existsSync\<close>, whether \<open>config.writeConfig()\<close> throws, and the \<open>configCtrl\<close>
  export of the module at an addon path: the \<open>require\<close> throws, or the export is no
  function (\<open>None\<close>), or it is one. Such a function is external code: given the addon's
  entry and the arguments, it calls \<open>setConfigValue\<close> with some keys and values and
  then returns a truthy or falsy value or throws.
\<close>

type_synonym configCtrl = "cfgValue option \<Rightarrow> string list \<Rightarrow> (string \<times> string) list \<times> (thrown + bool)"

record system =
  filename :: string
  dirname :: string
  path :: "(string \<Rightarrow> string) option"
  existsSync :: "string \<Rightarrow> bool"
  writeConfig :: "thrown option"
  requireConfigCtrl :: "string \<Rightarrow> thrown + configCtrl option"

text \<open>How a call ends: it returns, an exception leaves it, or \<open>process.exit\<close> ends the process.\<close>

datatype completion = Returned | Threw thrown | Exited nat

definition print :: "string \<Rightarrow> string list \<Rightarrow> control \<Rightarrow> control" where
  "print method args c = c \<lparr> console := console c @ [(method, args)] \<rparr>"

definition callWriteConfig :: "system \<Rightarrow> control \<Rightarrow> thrown option \<times> control" where
  "callWriteConfig sys c = (writeConfig sys, c \<lparr> written := written c @ [config c] \<rparr>)"

text \<open>\<^verbatim>\<open>config.addonInterface.addons[addonName] = value\<close>\<close>

definition setEntry :: "string \<Rightarrow> cfgValue \<Rightarrow> control \<Rightarrow> control" where
  "setEntry addonName v c = c \<lparr> config := AList.update addonName v (config c) \<rparr>"

text \<open>
  \<^verbatim>\<open>config.addonInterface.addons[addonName][p] = v\<close>, giving the changed entry. The
  method is part of a class body, which is strict code: the assignment throws on a
  primitive value, as it does on \<open>null\<close> and \<open>undefined\<close>. A function takes the
  property, which the model does not keep. An assignment of one of the values of the
  model to the name \<open>__proto__\<close> makes no property.
\<close>

fun assignProperty :: "cfgValue option \<Rightarrow> string \<Rightarrow> jsValue \<Rightarrow> thrown + cfgValue" where
  "assignProperty (Some (CfgObject ob)) p v =
     Inr (CfgObject (if p = ''__proto__'' then ob else AList.update p v ob))"
| "assignProperty (Some (CfgPrimitive t)) p v = Inl (TypeError (''Cannot create property '' @ quoted p))"
| "assignProperty (Some CfgNull) p v = Inl (TypeError (''Cannot set property '' @ quoted p @ '' of null''))"
| "assignProperty (Some CfgFunction) p v = Inr CfgFunction"
| "assignProperty None p v = Inl (TypeError (''Cannot set property '' @ quoted p @ '' of undefined''))"

text \<open>
  The assignment on the value the lookup gives. It changes the addon's entry when the
  name is an own property of the configuration; on an inherited value it lands on an
  object outside the configuration, which the model does not follow.
\<close>

definition assignEntry :: "string \<Rightarrow> string \<Rightarrow> jsValue \<Rightarrow> control \<Rightarrow> thrown + control" where
  "assignEntry addonName p v c =
     (case assignProperty (lookupAddon (config c) addonName) p v of
        Inl err \<Rightarrow> Inl err
      | Inr changed \<Rightarrow>
          Inr (if map_of (config c) addonName = None then c else setEntry addonName changed c))"

text \<open>\<^verbatim>\<open>String.prototype.padEnd\<close> with a one-character filler, and a boolean in a template.\<close>

definition padEnd :: "nat \<Rightarrow> char \<Rightarrow> string \<Rightarrow> string" where
  "padEnd n filler s = s @ replicate (n - length s) filler"

definition booleanString :: "bool \<Rightarrow> string" where
  "booleanString b = (if b then ''true'' else ''false'')"

text \<open>
  \<^verbatim>\<open>
  Object.keys(config.addonInterface.addons).forEach(addonName => {
    addonStatus += `${addonName.padEnd(50, ' ')} | ${config.addonInterface.addons[addonName].enabled !== false}\n`;
  });
  \<close>
\<close>

fun statusRows :: "addonsConfig \<Rightarrow> string list \<Rightarrow> thrown + string" where
  "statusRows cfg [] = Inr []"
| "statusRows cfg (addonName # rest) =
     (case getProperty (lookupAddon cfg addonName) ''enabled'' of
        Inl err \<Rightarrow> Inl err
      | Inr enabled \<Rightarrow>
          (case statusRows cfg rest of
             Inl err \<Rightarrow> Inl err
           | Inr rows \<Rightarrow>
               Inr (padEnd 50 CHR '' '' addonName @ '' | ''
                    @ booleanString (enabled \<noteq> Some (VBool False)) @ ''\<newline>'' @ rows)))"

definition statusHeader :: string where
  "statusHeader =
     ''\<newline>Installed in the order they are loaded when enabled:\<newline>''
     @ replicate 61 CHR ''-'' @ ''\<newline>''
     @ padEnd 51 CHR '' '' ''Addon'' @ ''| enabled\<newline>''
     @ replicate 61 CHR ''-'' @ ''\<newline>''"

definition printStatus :: "control \<Rightarrow> thrown option \<times> control" where
  "printStatus c =
     (case statusRows (config c) (map fst (config c)) of
        Inl err \<Rightarrow> (Some err, c)
      | Inr rows \<Rightarrow> (None, print ''log'' [statusHeader @ rows] c))"

text \<open>
  \<^verbatim>\<open>console.error(message, error.stack)\<close> in a \<open>catch\<close> block: the read of
  \<open>error.stack\<close> comes first, and an exception of it leaves the block.
\<close>

definition printError :: "string \<Rightarrow> thrown \<Rightarrow> control \<Rightarrow> completion \<times> control" where
  "printError message err c =
     (case stack err of
        Inl stackErr \<Rightarrow> (Threw stackErr, c)
      | Inr s \<Rightarrow> (Returned, print ''error'' [message, s] c))"

text \<open>
  \<^verbatim>\<open>try { body } catch(error) { console.error(message, error.stack); }\<close>
  around a body: an exception is printed and the method goes on; \<open>process.exit\<close> is
  not caught.
\<close>

definition catchAndPrint :: "string \<Rightarrow> completion \<times> control \<Rightarrow> completion \<times> control" where
  "catchAndPrint message r =
     (case r of
        (Threw err, c) \<Rightarrow> printError message err c
      | (Returned, c) \<Rightarrow> (Returned, c)
      | (Exited n, c) \<Rightarrow> (Exited n, c))"

text \<open>\<open>config.writeConfig()\<close> followed by a message, inside a \<open>try\<close> body.\<close>

definition writeAndReport :: "system \<Rightarrow> string \<Rightarrow> control \<Rightarrow> completion \<times> control" where
  "writeAndReport sys message c =
     (case callWriteConfig sys c of
        (Some err, c') \<Rightarrow> (Threw err, c')
      | (None, c') \<Rightarrow> (Returned, print ''info'' [message] c'))"

text \<open>
  \<^verbatim>\<open>
  case 'enable':
    try {
      if (!fs.existsSync(addonPath)) {
        console.error(`Addon folder does'nt exist '${addonPath}'`);
        process.exit(1);
      }
      let updateConfig = !config.addonInterface.addons[addonName];
      if (config.addonInterface.addons[addonName] && config.addonInterface.addons[addonName].enabled === false) {
         config.addonInterface.addons[addonName].enabled = true;
      } else if (updateConfig) {
        config.addonInterface.addons[addonName] = { enabled: true};
      }
      if (updateConfig) {
        config.writeConfig();
        console.info(`Enabled addon '${addonName}'.`);
      } else {
        console.info(`Nothing to do. Addon '${addonName}' was already enabled.`);
      }
    } catch(error) {
      console.error(`Error enable addon '${addonName}'!\n`, error.stack);
    }
    break;
  \<close>
\<close>

definition enableBody :: "system \<Rightarrow> string \<Rightarrow> string \<Rightarrow> control \<Rightarrow> completion \<times> control" where
  "enableBody sys addonName addonPath c =
     (if \<not> existsSync sys addonPath
      then (Exited 1, print ''error'' [''Addon folder does'nt exist '' @ quoted addonPath] c)
      else
        (let entry = lookupAddon (config c) addonName;
             updateConfig = \<not> truthy entry
         in case (if truthy entry \<and> getProperty entry ''enabled'' = Inr (Some (VBool False))
                  then assignEntry addonName ''enabled'' (VBool True) c
                  else if updateConfig
                  then Inr (setEntry addonName (CfgObject [(''enabled'', VBool True)]) c)
                  else Inr c) of
              Inl err \<Rightarrow> (Threw err, c)
            | Inr c' \<Rightarrow>
                if updateConfig
                then writeAndReport sys (''Enabled addon '' @ quoted addonName @ ''.'') c'
                else (Returned,
                      print ''info'' [''Nothing to do. Addon '' @ quoted addonName @ '' was already enabled.''] c')))"

definition enableCommand :: "system \<Rightarrow> string \<Rightarrow> string \<Rightarrow> control \<Rightarrow> completion \<times> control" where
  "enableCommand sys addonName addonPath c =
     catchAndPrint (''Error enable addon '' @ quoted addonName @ ''!\<newline>'')
       (enableBody sys addonName addonPath c)"

text \<open>
  \<^verbatim>\<open>
  case 'disable':
    try {
      if (config.addonInterface.addons[addonName] && config.addonInterface.addons[addonName].enabled !== false) {
        config.addonInterface.addons[addonName].enabled = false;
        config.writeConfig();
        console.info(`Disabled addon '${addonName}'.`);
      } else {
        console.info(`Nothing to do. Addon '${addonName}' was already disabled or not installed.`);
      }
    } catch(error) {
      console.error(`Error updating config to enable addon '${addonName}'!\n`, error.stack);
    }
    break;
  \<close>
\<close>

definition disableBody :: "system \<Rightarrow> string \<Rightarrow> control \<Rightarrow> completion \<times> control" where
  "disableBody sys addonName c =
     (let entry = lookupAddon (config c) addonName in
      if truthy entry \<and> getProperty entry ''enabled'' \<noteq> Inr (Some (VBool False))
      then (case assignEntry addonName ''enabled'' (VBool False) c of
              Inl err \<Rightarrow> (Threw err, c)
            | Inr c' \<Rightarrow> writeAndReport sys (''Disabled addon '' @ quoted addonName @ ''.'') c')
      else (Returned,
            print ''info''
              [''Nothing to do. Addon '' @ quoted addonName @ '' was already disabled or not installed.''] c))"

definition disableCommand :: "system \<Rightarrow> string \<Rightarrow> control \<Rightarrow> completion \<times> control" where
  "disableCommand sys addonName c =
     catchAndPrint (''Error updating config to enable addon '' @ quoted addonName @ ''!\<newline>'')
       (disableBody sys addonName c)"

text \<open>
  \<^verbatim>\<open>
  case 'remove':
    try {
      if (config.addonInterface.addons[addonName]) {
        delete config.addonInterface.addons[addonName];
        config.writeConfig();
        console.info(`Removed addon '${addonName}'.`);
      } else {
        console.info(`Nothing to do. Addon '${addonName}' was not enabled or installed.`);
      }
    } catch(error) {
      console.error(`Error updating config to remove addon '${addonName}'!\n`, error.stack);
    }
    break;
  \<close>
\<close>

definition removeBody :: "system \<Rightarrow> string \<Rightarrow> control \<Rightarrow> completion \<times> control" where
  "removeBody sys addonName c =
     (if truthy (lookupAddon (config c) addonName)
      then writeAndReport sys (''Removed addon '' @ quoted addonName @ ''.'')
             (c \<lparr> config := AList.delete addonName (config c) \<rparr>)
      else (Returned,
            print ''info''
              [''Nothing to do. Addon '' @ quoted addonName @ '' was not enabled or installed.''] c))"

definition removeCommand :: "system \<Rightarrow> string \<Rightarrow> control \<Rightarrow> completion \<times> control" where
  "removeCommand sys addonName c =
     catchAndPrint (''Error updating config to remove addon '' @ quoted addonName @ ''!\<newline>'')
       (removeBody sys addonName c)"

text \<open>
  \<^verbatim>\<open>
  const setConfigValue = (key, value) => {
    config.addonInterface.addons[addonName][key] = value;
    return true;
  }
  \<close>
  called for each of a list of keys and values in turn; an exception of a call is taken
  to leave the caller too.
\<close>

fun setConfigValues :: "string \<Rightarrow> (string \<times> string) list \<Rightarrow> control \<Rightarrow> thrown option \<times> control" where
  "setConfigValues addonName [] c = (None, c)"
| "setConfigValues addonName ((key, val) # rest) c =
     (case assignEntry addonName key (VString val) c of
        Inl err \<Rightarrow> (Some err, c)
      | Inr c' \<Rightarrow> setConfigValues addonName rest c')"

text \<open>
  \<^verbatim>\<open>
  try {
    let writeConfig = false;
    if (typeof configCtrl === 'function') {
      console.info(`Use configCtrl function from addon '${addonName}'.`);
      writeConfig = configCtrl(config.addonInterface.addons[addonName], setConfigValue, ...args);
    } else {
      config.addonInterface.addons[addonName][args[0]] = args[1];
      writeConfig = setConfigValue(args[0], args[1]);
    }
    if (writeConfig) {
      config.writeConfig();
      console.info(`Config changed for addon '${addonName}'.`);
    }
  } catch(error) {
    console.error(`Error updating config for addon '${addonName}'!\n`, error.stack);
  }
  \<close>
  The first two arguments are passed apart: the caller has checked that they are there.
\<close>

definition configBody :: "system \<Rightarrow> configCtrl option \<Rightarrow> string \<Rightarrow> string \<Rightarrow> string \<Rightarrow> string list \<Rightarrow> control \<Rightarrow> completion \<times> control" where
  "configBody sys ctrl addonName key val args c =
     (let changed = ''Config changed for addon '' @ quoted addonName @ ''.'' in
      case ctrl of
        Some f \<Rightarrow>
          (let c1 = print ''info'' [''Use configCtrl function from addon '' @ quoted addonName @ ''.''] c in
           case f (lookupAddon (config c1) addonName) args of
             (sets, result) \<Rightarrow>
               (case setConfigValues addonName sets c1 of
                  (Some err, c2) \<Rightarrow> (Threw err, c2)
                | (None, c2) \<Rightarrow>
                    (case result of
                       Inl err \<Rightarrow> (Threw err, c2)
                     | Inr toWrite \<Rightarrow>
                         if toWrite then writeAndReport sys changed c2 else (Returned, c2))))
      | None \<Rightarrow>
          (case setConfigValues addonName [(key, val), (key, val)] c of
             (Some err, c2) \<Rightarrow> (Threw err, c2)
           | (None, c2) \<Rightarrow> writeAndReport sys changed c2))"

text \<open>
  \<^verbatim>\<open>
  case 'config': // key value
    if (args.length < 2) {
      console.error(`Error configuring addon '${addonName}'! Too few argunments. Requires <key> <value> `);
      process.exit(1);
    }
    if (!config.addonInterface.addons[addonName]) {
      console.error(`Error configuring not installed addon '${addonName}'!`);
      process.exit(1);
    }
    let configCtrl;
    try {
      configCtrl = require(addonPath).configCtrl;
    } catch(error) {
      console.error(`Failed to load configControl for addon '${addonName}!`, error.stack)
    }
    ...
  \<close>
\<close>

definition configCommand :: "system \<Rightarrow> string \<Rightarrow> string \<Rightarrow> string list \<Rightarrow> control \<Rightarrow> completion \<times> control" where
  "configCommand sys addonName addonPath args c =
     (case args of
        key # val # others \<Rightarrow>
          if \<not> truthy (lookupAddon (config c) addonName)
          then (Exited 1, print ''error'' [''Error configuring not installed addon '' @ quoted addonName @ ''!''] c)
          else
            (case requireConfigCtrl sys addonPath of
               Inl err \<Rightarrow>
                 (case printError (''Failed to load configControl for addon '' @ [CHR 0x27] @ addonName @ ''!'') err c of
                    (Returned, c1) \<Rightarrow>
                      catchAndPrint (''Error updating config for addon '' @ quoted addonName @ ''!\<newline>'')
                        (configBody sys None addonName key val args c1)
                  | failed \<Rightarrow> failed)
             | Inr ctrl \<Rightarrow>
                 catchAndPrint (''Error updating config for addon '' @ quoted addonName @ ''!\<newline>'')
                   (configBody sys ctrl addonName key val args c))
      | tooFew \<Rightarrow>
          (Exited 1,
           print ''error''
             [''Error configuring addon '' @ quoted addonName @ ''! Too few argunments. Requires <key> <value> ''] c))"

text \<open>
  The method. An argument that was not passed is \<open>None\<close>; \<open>!x\<close> holds of a missing
  and of an empty string. The persisted configuration the method requires is the
  \<open>config\<close> of the state. No branch of the method returns after the usage text, and
  the sanitiser is called on the name as it came.
  \<^verbatim>\<open>
  static addonControl(command, addonName, ...args) {
    if (!command
      || ['help', '--help', '-h'].indexOf(command) > -1
      || (command !== 'status' && !addonName)) {

      console.info(`\nUsage: node ${__filename} <command> <addonName> [...arguments]\n`);
    }

    // remove invald characters from addon name
    addonName = removeInvalidAddonNameChars(addonName);

    const {config} = require(__dirname + '/configuration');

    if (command === 'status') {
      ...
      console.log(addonStatus);
    }

    const addonPath = path.resolve(`${__dirname}/../addons/${addonName}`);

    switch (command) {
      ...
    }
  };
  \<close>
\<close>

fun falsy :: "string option \<Rightarrow> bool" where
  "falsy None = True"
| "falsy (Some s) = (s = [])"

definition usageWanted :: "string option \<Rightarrow> string option \<Rightarrow> bool" where
  "usageWanted command addonName \<longleftrightarrow>
     falsy command
     \<or> (case command of None \<Rightarrow> False | Some cmd \<Rightarrow> cmd \<in> set [''help'', ''--help'', ''-h''])
     \<or> (command \<noteq> Some ''status'' \<and> falsy addonName)"

definition usage :: "system \<Rightarrow> string" where
  "usage sys = ''\<newline>Usage: node '' @ filename sys @ '' <command> <addonName> [...arguments]\<newline>''"

definition runCommand :: "system \<Rightarrow> string option \<Rightarrow> string \<Rightarrow> string \<Rightarrow> string list \<Rightarrow> control \<Rightarrow> completion \<times> control" where
  "runCommand sys command addonName addonPath args c =
     (if command = Some ''enable'' then enableCommand sys addonName addonPath c
      else if command = Some ''disable'' then disableCommand sys addonName c
      else if command = Some ''remove'' then removeCommand sys addonName c
      else if command = Some ''config'' then configCommand sys addonName addonPath args c
      else (Returned, c))"

definition addonControl :: "system \<Rightarrow> string option \<Rightarrow> string option \<Rightarrow> string list \<Rightarrow> control \<Rightarrow> completion \<times> control" where
  "addonControl sys command addonName args c =
     (let c1 = (if usageWanted command addonName then print ''info'' [usage sys] c else c) in
      case addonName of
        None \<Rightarrow> (Threw (TypeError (''Cannot read property '' @ quoted ''replace'' @ '' of undefined'')), c1)
      | Some given \<Rightarrow>
          (let name = removeInvalidAddonNameChars given in
           case (if command = Some ''status'' then printStatus c1 else (None, c1)) of
             (Some err, c2) \<Rightarrow> (Threw err, c2)
           | (None, c2) \<Rightarrow>
               (case path sys of
                  None \<Rightarrow> (Threw (ReferenceError ''path is not defined''), c2)
                | Some resolve \<Rightarrow>
                    runCommand sys command name (resolve (dirname sys @ ''/../addons/'' @ name)) args c2)))"


subsection \<open>Notions used in the statements\<close>

text \<open>
  A declared name is readable when the loader's read of \<open>enabled\<close>, made under the
  sanitised name, does not throw.
\<close>

definition entryReadable :: "configuration \<Rightarrow> string \<Rightarrow> bool" where
  "entryReadable cfg key =
     (case getProperty (lookupAddon (addons cfg) (removeInvalidAddonNameChars key)) ''enabled'' of
        Inl err \<Rightarrow> False
      | Inr v \<Rightarrow> True)"

text \<open>
  The arguments of the warning for a listener name outside the vocabulary.
\<close>

definition unknownListenerWarning :: "string \<Rightarrow> string list" where
  "unknownListenerWarning eventName =
     [''Ignore definition for unknown event listener: '' @ quoted eventName
        @ ''! Use one of '' @ quoted (joinArgs validListenEvents)]"

text \<open>
  A process that makes several constructions in a row, each through
  \<open>initAddonInterface\<close> or through \<open>new AddonInterface\<close>, which gives the object the
  module variable refers to.
\<close>

datatype construction = ByInit "string list" configuration | ByNew "string list" configuration

fun attempt :: "host \<Rightarrow> construction \<Rightarrow> world \<Rightarrow> (thrown + AddonInterface option) \<times> world" where
  "attempt h (ByInit imgs cfg) w = initAddonInterface h imgs cfg w"
| "attempt h (ByNew imgs cfg) w =
     (case newAddonInterface h imgs cfg w of
        (Some err, w') \<Rightarrow> (Inl err, w')
      | (None, w') \<Rightarrow> (Inr (addonInterfaceObj w'), w'))"

fun attempts :: "host \<Rightarrow> construction list \<Rightarrow> world \<Rightarrow> (thrown + AddonInterface option) list \<times> world" where
  "attempts h [] w = ([], w)"
| "attempts h (c # cs) w =
     (case attempt h c w of
        (r, w') \<Rightarrow> (case attempts h cs w' of (rs, w'') \<Rightarrow> (r # rs, w'')))"

text \<open>
  The instance the function style makes, before it calls the unit, from the object the
  loader made for an entry: \<open>AddonClass.name || addonName\<close> names it, it has the host's
  images and logger and the configured log types, and no listeners yet.
\<close>

definition functionStyleBase :: "cfgValue option \<Rightarrow> string list \<Rightarrow> string list \<Rightarrow> addonUnit \<Rightarrow> string \<Rightarrow> AddonBase" where
  "functionStyleBase entry types imgs AddonClass addonName =
     \<lparr> ab_name = functionStyleName AddonClass addonName,
       ab_images = Some (Js (VStrings imgs)),
       ab_logger = Some HostLogger,
       ab_logTypes = Some (Js (VStrings types)),
       ab_listeners = [],
       ab_config = normalized (newAddonConfig entry types imgs) \<rparr>"

text \<open>
  The registry of a state, and the error with which the body of the loader's \<open>try\<close>
  block ends for a name, if it ends with one, with the state it leaves: the error of
  \<open>require\<close> or of the check of the export, the error of the construction, or the
  error for an object that is no \<open>AddonBase\<close>.
\<close>

definition loadedAddons :: "world \<Rightarrow> AddonBase list" where
  "loadedAddons w = (case addonInterfaceObj w of None \<Rightarrow> [] | Some this \<Rightarrow> ai_addons this)"

definition loadFailure :: "host \<Rightarrow> configuration \<Rightarrow> string list \<Rightarrow> string \<Rightarrow> world \<Rightarrow> (thrown \<times> world) option" where
  "loadFailure h cfg imgs addonName w =
     (case requireUnit (requireAddon h addonName) of
        Inl err \<Rightarrow> Some (err, w)
      | Inr AddonClass \<Rightarrow>
          (case createAddon h (newAddonConfig (lookupAddon (addons cfg) addonName) (logging cfg) imgs)
                  AddonClass addonName w of
             (Inl err, w') \<Rightarrow> Some (err, w')
           | (Inr OtherObject, w') \<Rightarrow>
               Some (AddonError (''Invalid class declaration for addon '' @ quoted addonName
                       @ ''! The class must extend the AddonBase class.''), w')
           | (Inr (AddonInstance newAddon), w') \<Rightarrow> None))"

text \<open>
  For the dispatch: the identifier of a callback; the callbacks of a list that get
  called, which are those up to and with the first that throws; the exception that ends
  the list, if any; the callbacks an addon registered for a name; and what the
  registry's logger passes on when an addon's list ends with an exception that has a
  stack.
\<close>

fun callbackId :: "callback \<Rightarrow> nat" where
  "callbackId (Callback i outcome) = i"

fun attempted :: "callback list \<Rightarrow> callback list" where
  "attempted [] = []"
| "attempted (Callback i None # rest) = Callback i None # attempted rest"
| "attempted (Callback i (Some err) # rest) = [Callback i (Some err)]"

fun firstThrown :: "callback list \<Rightarrow> thrown option" where
  "firstThrown [] = None"
| "firstThrown (Callback i None # rest) = firstThrown rest"
| "firstThrown (Callback i (Some err) # rest) = Some err"

definition callbacksFor :: "string \<Rightarrow> AddonBase \<Rightarrow> callback list" where
  "callbacksFor eventName addon =
     (case map_of (ab_listeners addon) eventName of None \<Rightarrow> [] | Some callbacks \<Rightarrow> callbacks)"

definition callbackFailure :: "AddonInterface \<Rightarrow> string \<Rightarrow> AddonBase \<Rightarrow> logLine list" where
  "callbackFailure this eventName addon =
     (case firstThrown (callbacksFor eventName addon) of
        None \<Rightarrow> []
      | Some err \<Rightarrow>
          (case stack err of
             Inl stackErr \<Rightarrow> []
           | Inr s \<Rightarrow>
               getClassLogger ''AddonInterface'' (ai_logging this) ''error''
                 [''Error execute callback for addon '' @ ab_name addon @ '' event '' @ eventName
                    @ ''!\<newline>'', s]))"

subsection \<open>Example inputs\<close>

text \<open>
  Concrete inputs for the runs below. The addon \<open>clock\<close> is an arrow function that
  registers one callback for \<open>newImage\<close> and for the unknown name \<open>tick\<close> and sends
  the events \<open>next\<close> and \<open>explode\<close>; \<open>broken\<close> is a class extending \<open>AddonBase\<close>,
  exported under \<open>addon\<close>, whose constructor throws an \<open>Error\<close>; the constructor of
  \<open>typo\<close>, a class extending \<open>AddonBase\<close>, throws a \<open>TypeError\<close>, that of \<open>nuller\<close>
  throws \<open>null\<close>; \<open>album\<close> is a class extending \<open>AddonBase\<close> that registers a callback
  for \<open>newImage\<close>; \<open>counter\<close> is an arrow function that registers a callback for
  \<open>length\<close>; no other module exists. The emitter does not throw, and arrays have
  the methods of the language's 2015 edition.
  The configurations declare \<open>broken\<close>, \<open>clock\<close> and the switched-off \<open>off\<close>; or \<open>clock\<close>
  and a name that is sanitised to \<open>clock\<close>; or \<open>clock\<close> and a name that is sanitised
  to the undeclared \<open>evil\<close>; or \<open>clock\<close>, \<open>nuller\<close> and \<open>album\<close>. The registry for the
  dispatch holds two addons that registered for \<open>newImage\<close>. The host of the control
  surface binds \<open>path\<close> (its \<open>resolve\<close> leaves the path as it is), has every folder and
  writes without error.
\<close>

definition freshWorld :: world where
  "freshWorld = \<lparr> addonInterfaceObj = None, hostLog = [], emitted = [], installed = [], called = [] \<rparr>"

definition clockAddon :: addonUnit where
  "clockAddon =
     PlainFunction ''clock'' False
       [RegisterListener (Many [''newImage'', ''tick'']) (One (Callback 1 None)),
        SendEvent ''next'' [],
        SendEvent ''explode'' []]
       Returns"

definition brokenAddon :: addonUnit where
  "brokenAddon = DerivedClass ''Broken'' [RegisterListener (One ''paused'') (One (Callback 2 None))]
     (Throws (OtherError ''no network''))"

definition typoAddon :: addonUnit where
  "typoAddon = DerivedClass ''Typo'' [] (Throws (TypeError ''this.start is not a function''))"

definition nullAddon :: addonUnit where
  "nullAddon = DerivedClass ''Nuller'' [] (Throws Nullish)"

definition albumAddon :: addonUnit where
  "albumAddon = DerivedClass ''Album'' [RegisterListener (One ''newImage'') (One (Callback 3 None))] Returns"

definition counterAddon :: addonUnit where
  "counterAddon = PlainFunction ''counter'' False [RegisterListener (One ''length'') (One (Callback 5 None))] Returns"

definition exampleHost :: host where
  "exampleHost =
     \<lparr> requireAddon = (\<lambda>name.
          if name = ''clock'' then Exports (Callable clockAddon)
          else if name = ''broken'' then ExportsAddon (Callable brokenAddon)
          else if name = ''typo'' then Exports (Callable typoAddon)
          else if name = ''nuller'' then Exports (Callable nullAddon)
          else if name = ''album'' then Exports (Callable albumAddon)
          else if name = ''counter'' then Exports (Callable counterAddon)
          else RequireThrows (OtherError ''Cannot find module'')),
       emitterSend = (\<lambda>eventName args. None),
       arrayPrototype =
         [''constructor'', ''concat'', ''copyWithin'', ''entries'', ''every'', ''fill'', ''filter'',
          ''find'', ''findIndex'', ''forEach'', ''indexOf'', ''join'', ''keys'', ''lastIndexOf'',
          ''map'', ''pop'', ''push'', ''reduce'', ''reduceRight'', ''reverse'', ''shift'', ''slice'',
          ''some'', ''sort'', ''splice'', ''toLocaleString'', ''toString'', ''unshift'', ''values''] \<rparr>"

definition exampleConfiguration :: configuration where
  "exampleConfiguration =
     \<lparr> logging = [''warn'', ''error''],
       addons = [(''broken'', CfgObject []), (''clock'', CfgObject [(''enabled'', VBool True)]),
                 (''off'', CfgObject [(''enabled'', VBool False)])] \<rparr>"

definition shadowedConfiguration :: configuration where
  "shadowedConfiguration =
     \<lparr> logging = [''error''], addons = [(''clock'', CfgObject []), (''clock./ '', CfgObject [])] \<rparr>"

definition traversalConfiguration :: configuration where
  "traversalConfiguration =
     \<lparr> logging = [''error''], addons = [(''clock'', CfgObject []), (''./ evil'', CfgObject [])] \<rparr>"

definition nullishConfiguration :: configuration where
  "nullishConfiguration =
     \<lparr> logging = [''info'', ''warn'', ''error''],
       addons = [(''clock'', CfgObject []), (''nuller'', CfgObject []), (''album'', CfgObject [])] \<rparr>"

definition emptyInterface :: AddonInterface where
  "emptyInterface = \<lparr> ai_addons = [], ai_images = [], ai_listeners = [], ai_logging = [''warn'', ''error''] \<rparr>"

definition clockInstance :: AddonBase where
  "clockInstance =
     \<lparr> ab_name = ''clock'', ab_images = Some (Js (VStrings [])), ab_logger = Some HostLogger,
       ab_logTypes = Some (Js (VStrings [''warn'', ''error''])),
       ab_listeners = [], ab_config = [] \<rparr>"

definition startedWorld :: world where
  "startedWorld = freshWorld \<lparr> addonInterfaceObj := Some emptyInterface \<rparr>"

definition clockLoaded :: AddonBase where
  "clockLoaded =
     \<lparr> ab_name = ''clock'', ab_images = Some (Js (VStrings [])), ab_logger = Some HostLogger,
       ab_logTypes = Some (Js (VStrings [''warn'', ''error''])),
       ab_listeners = [(''newImage'', [Callback 1 None]), (''tick'', [Callback 1 None])],
       ab_config = [(''logTypes'', Js (VStrings [''warn'', ''error''])), (''enabled'', Js (VBool True))] \<rparr>"

definition dispatchInterface :: AddonInterface where
  "dispatchInterface =
     \<lparr> ai_addons =
         [clockInstance \<lparr> ab_listeners :=
            [(''newImage'', [Callback 1 (Some (OtherError ''boom'')), Callback 2 None])] \<rparr>,
          clockInstance \<lparr> ab_name := ''album'',
            ab_listeners := [(''paused'', [Callback 4 None]), (''newImage'', [Callback 3 None])] \<rparr>],
       ai_images = [],
       ai_listeners = [''newImage'', ''paused''],
       ai_logging = [''error''] \<rparr>"

definition exampleSystem :: system where
  "exampleSystem =
     \<lparr> filename = ''/opt/TeleFrame/js/addonInterface.js'',
       dirname = ''/opt/TeleFrame/js'',
       path = Some (\<lambda>p. p),
       existsSync = (\<lambda>p. True),
       writeConfig = None,
       requireConfigCtrl = (\<lambda>p. Inr None) \<rparr>"

definition disabledControl :: control where
  "disabledControl =
     \<lparr> config = [(''addonA'', CfgObject [(''enabled'', VBool False)])], console = [], written = [] \<rparr>"

definition enabledControl :: control where
  "enabledControl =
     \<lparr> config = [(''addonA'', CfgObject [(''enabled'', VBool True)])], console = [], written = [] \<rparr>"

section \<open>Properties\<close>

subsection \<open>What the operations leave unchanged\<close>

lemma interfaceLog_fields [simp]:
  "addonInterfaceObj (interfaceLog t ty args w) = addonInterfaceObj w"
  "emitted (interfaceLog t ty args w) = emitted w"
  "installed (interfaceLog t ty args w) = installed w"
  "called (interfaceLog t ty args w) = called w"
  "hostLog (interfaceLog t ty args w) = hostLog w @ getClassLogger ''AddonInterface'' t ty args"
  by (simp_all add: interfaceLog_def)

lemma addonLog_fields [simp]:
  "addonInterfaceObj (snd (addonLog a ty args w)) = addonInterfaceObj w"
  "emitted (snd (addonLog a ty args w)) = emitted w"
  "installed (snd (addonLog a ty args w)) = installed w"
  "called (snd (addonLog a ty args w)) = called w"
  by (simp_all add: addonLog_def split: sum.splits)

lemma addonLog_hostLogger:
  assumes "ab_logger a = Some HostLogger"
    and "ab_logTypes a = Some (Js (VStrings types))"
  shows "addonLog a ty args w =
           (None, w \<lparr> hostLog := hostLog w @ getClassLogger (''addon '' @ ab_name a) types ty args \<rparr>)"
  using assms by (simp add: addonLog_def getClassLogger_def)

lemma updateInterface_fields [simp]:
  "addonInterfaceObj (updateInterface f w) = map_option f (addonInterfaceObj w)"
  "installed (updateInterface f w) = installed w"
  "called (updateInterface f w) = called w"
  "hostLog (updateInterface f w) = hostLog w"
  "emitted (updateInterface f w) = emitted w"
  by (simp_all add: updateInterface_def)

lemma stack_throws: "stack err = Inl e \<longleftrightarrow> err = Nullish \<and> e = TypeError (''Cannot read property '' @ quoted ''stack'' @ '' of null'')"
  by (cases err) auto

lemma stack_returns: "err \<noteq> Nullish \<Longrightarrow> \<exists>s. stack err = Inr s"
  by (cases err) auto

lemma initializeFailed_fields [simp]:
  "addonInterfaceObj (snd (initializeFailed cfg n err w)) = addonInterfaceObj w"
  "installed (snd (initializeFailed cfg n err w)) = installed w"
  "called (snd (initializeFailed cfg n err w)) = called w"
  "emitted (snd (initializeFailed cfg n err w)) = emitted w"
  by (simp_all add: initializeFailed_def split: sum.splits)

lemma initializeFailed_TypeError:
  "fst (initializeFailed cfg n err w) = Some e \<Longrightarrow> \<exists>m. e = TypeError m"
  by (auto simp: initializeFailed_def stack_throws split: sum.splits)

lemma sendFailed_keeps [simp]:
  "addonInterfaceObj (snd (sendFailed a e err w)) = addonInterfaceObj w"
  "installed (snd (sendFailed a e err w)) = installed w"
  "called (snd (sendFailed a e err w)) = called w"
  by (simp_all add: sendFailed_def split: sum.splits)

lemma sendEvent_keeps:
  "addonInterfaceObj (snd (sendEvent h a e args w)) = addonInterfaceObj w"
  "installed (snd (sendEvent h a e args w)) = installed w"
  "called (snd (sendEvent h a e args w)) = called w"
  by (simp_all add: sendEvent_def Let_def split: option.splits)

lemma runSteps_keeps:
  "addonInterfaceObj (snd (snd (runSteps h steps a w))) = addonInterfaceObj w \<and>
   installed (snd (snd (runSteps h steps a w))) = installed w \<and>
   called (snd (snd (runSteps h steps a w))) = called w"
proof (induction steps arbitrary: a w)
  case Nil
  show ?case by simp
next
  case (Cons s steps)
  show ?case
  proof (cases s)
    case (RegisterListener ns cbs)
    obtain r a' where rl: "registerListener h ns cbs a = (r, a')"
      by (cases "registerListener h ns cbs a")
    with RegisterListener Cons.IH [of a' w] show ?thesis by (cases r) simp_all
  next
    case (SendEvent e args)
    obtain r w' where sw: "sendEvent h a e args w = (r, w')" by (cases "sendEvent h a e args w")
    from sw sendEvent_keeps [of h a e args w]
    have "addonInterfaceObj w' = addonInterfaceObj w" "installed w' = installed w" "called w' = called w"
      by simp_all
    with sw SendEvent Cons.IH [of a w'] show ?thesis by (cases r) simp_all
  qed
qed

lemma construct_keeps:
  "addonInterfaceObj (snd (snd (construct h c u w))) = addonInterfaceObj w \<and>
   installed (snd (snd (construct h c u w))) = installed w \<and>
   called (snd (snd (construct h c u w))) = called w"
proof (cases u)
  case (DerivedClass n steps e)
  obtain b c' where nb: "newAddonBase c None n w = (b, c')" by (cases "newAddonBase c None n w")
  show ?thesis
  proof (cases b)
    case (Inl err)
    with DerivedClass nb show ?thesis by simp
  next
    case (Inr a)
    obtain r a' w' where rs: "runSteps h steps a w = (r, a', w')" by (cases "runSteps h steps a w")
    from rs runSteps_keeps [of h steps a w]
    have "addonInterfaceObj w' = addonInterfaceObj w" "installed w' = installed w" "called w' = called w"
      by simp_all
    with DerivedClass nb Inr rs show ?thesis by (cases r) (simp_all split: ending.splits)
  qed
next
  case (ForeignClass n e)
  then show ?thesis by (simp split: ending.splits)
next
  case (PlainFunction n k steps e)
  then show ?thesis by (simp split: ending.splits)
qed

lemma invoke_keeps:
  "addonInterfaceObj (snd (snd (invoke h u a w))) = addonInterfaceObj w \<and>
   installed (snd (snd (invoke h u a w))) = installed w \<and>
   called (snd (snd (invoke h u a w))) = called w"
proof (cases u)
  case (PlainFunction n k steps e)
  obtain r a' w' where rs: "runSteps h steps a w = (r, a', w')" by (cases "runSteps h steps a w")
  from rs runSteps_keeps [of h steps a w]
  have "addonInterfaceObj w' = addonInterfaceObj w" "installed w' = installed w" "called w' = called w"
    by simp_all
  with PlainFunction rs show ?thesis by (cases r) (simp_all split: ending.splits)
qed simp_all

lemma newFunctionStyle_keeps:
  "addonInterfaceObj (snd (newFunctionStyle h c u n w)) = addonInterfaceObj w \<and>
   installed (snd (newFunctionStyle h c u n w)) = installed w \<and>
   called (snd (newFunctionStyle h c u n w)) = called w"
proof -
  obtain b c' where nb: "newAddonBase c (Some (functionStyleName u n)) [] w = (b, c')"
    by (cases "newAddonBase c (Some (functionStyleName u n)) [] w")
  show ?thesis
  proof (cases b)
    case (Inl err)
    with nb show ?thesis by (simp add: newFunctionStyle_def)
  next
    case (Inr a)
    obtain r a' w' where iv: "invoke h u a w = (r, a', w')" by (cases "invoke h u a w")
    with invoke_keeps [of h u a w]
    have "addonInterfaceObj w' = addonInterfaceObj w" "installed w' = installed w" "called w' = called w"
      by simp_all
    with nb Inr iv show ?thesis by (cases r) (simp_all add: newFunctionStyle_def)
  qed
qed

lemma createAddon_keeps:
  "addonInterfaceObj (snd (createAddon h c u n w)) = addonInterfaceObj w \<and>
   installed (snd (createAddon h c u n w)) = installed w \<and>
   called (snd (createAddon h c u n w)) = called w"
proof -
  obtain r c' w' where cs: "construct h c u w = (r, c', w')" by (cases "construct h c u w")
  with construct_keeps [of h c u w]
  have k: "addonInterfaceObj w' = addonInterfaceObj w" "installed w' = installed w" "called w' = called w"
    by simp_all
  show ?thesis
  proof (cases r)
    case (Inr x)
    with cs k show ?thesis by (simp add: createAddon_def)
  next
    case (Inl err)
    with cs k newFunctionStyle_keeps [of h c' u n w'] show ?thesis by (simp add: createAddon_def)
  qed
qed

lemma loadAddon_keeps:
  "installed (snd (loadAddon h cfg imgs n w)) = installed w \<and>
   called (snd (loadAddon h cfg imgs n w)) = called w \<and>
   (addonInterfaceObj (snd (loadAddon h cfg imgs n w)) = None \<longleftrightarrow> addonInterfaceObj w = None)"
proof (cases "requireUnit (requireAddon h n)")
  case (Inl err)
  then show ?thesis by (simp add: loadAddon_def)
next
  case (Inr u)
  define c where "c = newAddonConfig (lookupAddon (addons cfg) n) (logging cfg) imgs"
  obtain r w' where cr: "createAddon h c u n w = (r, w')" by (cases "createAddon h c u n w")
  with createAddon_keeps [of h c u n w]
  have k: "addonInterfaceObj w' = addonInterfaceObj w" "installed w' = installed w" "called w' = called w"
    by simp_all
  from Inr cr k show ?thesis
    by (simp add: loadAddon_def c_def [symmetric] split: sum.splits newAddon.splits)
qed

lemma loadConfigured_keeps:
  "installed (snd (loadConfigured h cfg imgs key w)) = installed w \<and>
   called (snd (loadConfigured h cfg imgs key w)) = called w \<and>
   (addonInterfaceObj (snd (loadConfigured h cfg imgs key w)) = None \<longleftrightarrow> addonInterfaceObj w = None)"
  using loadAddon_keeps [of h cfg imgs "removeInvalidAddonNameChars key" w]
  by (simp add: loadConfigured_def Let_def split: sum.splits)

lemma loadAddons_keeps:
  "installed (snd (loadAddons h cfg imgs keys w)) = installed w \<and>
   called (snd (loadAddons h cfg imgs keys w)) = called w \<and>
   (addonInterfaceObj (snd (loadAddons h cfg imgs keys w)) = None \<longleftrightarrow> addonInterfaceObj w = None)"
proof (induction keys arbitrary: w)
  case Nil
  show ?case by simp
next
  case (Cons key keys)
  obtain r w' where lc: "loadConfigured h cfg imgs key w = (r, w')"
    by (cases "loadConfigured h cfg imgs key w")
  with loadConfigured_keeps [of h cfg imgs key w]
  have k: "installed w' = installed w" "called w' = called w"
    "addonInterfaceObj w' = None \<longleftrightarrow> addonInterfaceObj w = None" by simp_all
  show ?case
  proof (cases r)
    case None
    with lc k Cons.IH [of w'] show ?thesis by simp
  next
    case (Some err)
    with lc k show ?thesis by simp
  qed
qed

subsection \<open>How the loader and the constructor end\<close>

lemma getProperty_TypeError: "getProperty v p = Inl err \<Longrightarrow> \<exists>m. err = TypeError m"
  by (cases "(v, p)" rule: getProperty.cases) auto

lemma loadAddon_failed:
  "loadFailure h cfg imgs n w = Some (err, w') \<Longrightarrow>
   loadAddon h cfg imgs n w = initializeFailed cfg n err w'"
  by (auto simp: loadAddon_def loadFailure_def Let_def split: sum.splits prod.splits newAddon.splits)

lemma loadAddon_loaded:
  "loadFailure h cfg imgs n w = None \<Longrightarrow>
   \<exists>u a w'. requireUnit (requireAddon h n) = Inr u
     \<and> createAddon h (newAddonConfig (lookupAddon (addons cfg) n) (logging cfg) imgs) u n w
          = (Inr (AddonInstance a), w')
     \<and> loadAddon h cfg imgs n w =
          (None, interfaceLog (logging cfg) ''info'' [''Successfully loaded addon '' @ quoted n @ ''.'']
                   (updateInterface (pushAddon a) w'))"
  by (auto simp: loadAddon_def loadFailure_def Let_def split: sum.splits prod.splits newAddon.splits)

lemma loadAddon_TypeError:
  "fst (loadAddon h cfg imgs n w) = Some e \<Longrightarrow> \<exists>m. e = TypeError m"
proof (cases "loadFailure h cfg imgs n w")
  case None
  from loadAddon_loaded [OF this] show ?thesis if "fst (loadAddon h cfg imgs n w) = Some e"
    using that by auto
next
  case (Some p)
  obtain err w' where "p = (err, w')" by (cases p)
  with Some loadAddon_failed [of h cfg imgs n w err w'] initializeFailed_TypeError [of cfg n err w' e]
  show ?thesis if "fst (loadAddon h cfg imgs n w) = Some e" using that by simp
qed

lemma loadConfigured_TypeError:
  "fst (loadConfigured h cfg imgs key w) = Some e \<Longrightarrow> \<exists>m. e = TypeError m"
  by (auto simp: loadConfigured_def Let_def dest: loadAddon_TypeError getProperty_TypeError
           split: sum.splits if_splits)

lemma loadConfigured_unreadable:
  "\<not> entryReadable cfg key \<Longrightarrow> \<exists>m. loadConfigured h cfg imgs key w = (Some (TypeError m), w)"
  by (auto simp: loadConfigured_def entryReadable_def Let_def dest: getProperty_TypeError split: sum.splits)

lemma loadAddons_TypeError:
  "fst (loadAddons h cfg imgs keys w) = Some err \<Longrightarrow> \<exists>m. err = TypeError m"
proof (induction keys arbitrary: w)
  case Nil
  then show ?case by simp
next
  case (Cons key keys)
  obtain r w' where lc: "loadConfigured h cfg imgs key w = (r, w')"
    by (cases "loadConfigured h cfg imgs key w")
  show ?case
  proof (cases r)
    case None
    with lc Cons show ?thesis by simp
  next
    case (Some e)
    with lc Cons.prems have "e = err" by simp
    with Some lc have "fst (loadConfigured h cfg imgs key w) = Some err" by simp
    then show ?thesis by (rule loadConfigured_TypeError)
  qed
qed

lemma loadAddons_throws:
  "key \<in> set keys \<Longrightarrow> \<not> entryReadable cfg key \<Longrightarrow> \<exists>m. fst (loadAddons h cfg imgs keys w) = Some (TypeError m)"
proof (induction keys arbitrary: w)
  case Nil
  then show ?case by simp
next
  case (Cons k keys)
  obtain r w' where lc: "loadConfigured h cfg imgs k w = (r, w')"
    by (cases "loadConfigured h cfg imgs k w")
  show ?case
  proof (cases r)
    case (Some e)
    with lc have "fst (loadAddons h cfg imgs (k # keys) w) = Some e" by simp
    with loadAddons_TypeError [of h cfg imgs "k # keys" w e] show ?thesis by auto
  next
    case None
    with lc loadConfigured_unreadable [of cfg k h imgs w] have "entryReadable cfg k" by auto
    with Cons.prems have "key \<in> set keys" by auto
    with Cons.IH [of w'] Cons.prems obtain m where "fst (loadAddons h cfg imgs keys w') = Some (TypeError m)"
      by blast
    with lc None show ?thesis by simp
  qed
qed

lemma installListener_fields [simp]:
  "addonInterfaceObj (installListener t e w) = addonInterfaceObj w"
  "called (installListener t e w) = called w"
  "emitted (installListener t e w) = emitted w"
  "installed (installListener t e w) = installed w @ (if e \<in> set validListenEvents then [e] else [])"
  by (simp_all add: installListener_def)

lemma installListeners_fields:
  "addonInterfaceObj (installListeners t es w) = addonInterfaceObj w"
  "called (installListeners t es w) = called w"
  "emitted (installListeners t es w) = emitted w"
  "installed (installListeners t es w) = installed w @ filter (\<lambda>e. e \<in> set validListenEvents) es"
  unfolding installListeners_def by (induction es arbitrary: w) simp_all

lemma installListener_hostLog:
  "hostLog (installListener t e w) =
     hostLog w @
     (if e \<in> set validListenEvents
      then getClassLogger ''AddonInterface'' t ''info'' [''Installed listener '' @ quoted e]
      else getClassLogger ''AddonInterface'' t ''warn''
             [''Ignore definition for unknown event listener: '' @ quoted e
                @ ''! Use one of '' @ quoted (joinArgs validListenEvents)])"
  by (simp add: installListener_def)

lemma installListeners_hostLog:
  "hostLog (installListeners t es w) =
     hostLog w @
     concat (map (\<lambda>e.
       if e \<in> set validListenEvents
       then getClassLogger ''AddonInterface'' t ''info'' [''Installed listener '' @ quoted e]
       else getClassLogger ''AddonInterface'' t ''warn''
              [''Ignore definition for unknown event listener: '' @ quoted e
                 @ ''! Use one of '' @ quoted (joinArgs validListenEvents)]) es)"
  unfolding installListeners_def
  by (induction es arbitrary: w) (simp_all add: installListener_hostLog)

lemma newAddonInterface_returned:
  assumes "newAddonInterface h imgs cfg w = (None, w')"
  shows "installed w' = installed w @ filter (\<lambda>e. e \<in> set validListenEvents) (interfaceListeners w')"
    and "\<exists>before. hostLog w' = before @
           concat (map (\<lambda>e.
             if e \<in> set validListenEvents
             then getClassLogger ''AddonInterface'' (logging cfg) ''info'' [''Installed listener '' @ quoted e]
             else getClassLogger ''AddonInterface'' (logging cfg) ''warn''
                    [''Ignore definition for unknown event listener: '' @ quoted e
                       @ ''! Use one of '' @ quoted (joinArgs validListenEvents)]) (interfaceListeners w'))
           @ getClassLogger ''AddonInterface'' (logging cfg) ''info'' [''Addons loaded and initialized'']"
proof -
  from assms have fresh: "addonInterfaceObj w = None"
    by (auto simp: newAddonInterface_def split: if_splits)
  define w2 where "w2 = interfaceLog (logging cfg) ''info'' [''Load addons...'']
      (w \<lparr> addonInterfaceObj := Some \<lparr> ai_addons = [], ai_images = imgs, ai_listeners = [], ai_logging = logging cfg \<rparr> \<rparr>)"
  obtain r w3 where la: "loadAddons h cfg imgs (map fst (addons cfg)) w2 = (r, w3)"
    by (cases "loadAddons h cfg imgs (map fst (addons cfg)) w2")
  define w4 where "w4 = interfaceLog (logging cfg) ''info'' [''Initialize addons...''] w3"
  from assms fresh la have r: "r = None"
    by (cases r) (simp_all add: newAddonInterface_def Let_def w2_def [symmetric])
  from assms fresh la r have w': "w' = interfaceLog (logging cfg) ''info'' [''Addons loaded and initialized'']
      (installListeners (logging cfg) (interfaceListeners w4) w4)"
    by (simp add: newAddonInterface_def Let_def w2_def [symmetric] w4_def)
  have ls: "interfaceListeners w' = interfaceListeners w4"
    by (simp add: w' interfaceListeners_def installListeners_fields)
  from la loadAddons_keeps [of h cfg imgs "map fst (addons cfg)" w2]
  have "installed w3 = installed w" by (simp add: w2_def)
  then show "installed w' = installed w @ filter (\<lambda>e. e \<in> set validListenEvents) (interfaceListeners w')"
    by (simp add: ls) (simp add: w' installListeners_fields w4_def)
  show "\<exists>before. hostLog w' = before @
           concat (map (\<lambda>e.
             if e \<in> set validListenEvents
             then getClassLogger ''AddonInterface'' (logging cfg) ''info'' [''Installed listener '' @ quoted e]
             else getClassLogger ''AddonInterface'' (logging cfg) ''warn''
                    [''Ignore definition for unknown event listener: '' @ quoted e
                       @ ''! Use one of '' @ quoted (joinArgs validListenEvents)]) (interfaceListeners w'))
           @ getClassLogger ''AddonInterface'' (logging cfg) ''info'' [''Addons loaded and initialized'']"
    by (simp add: ls) (simp add: w' installListeners_hostLog)
qed

lemma newAddonInterface_outcome:
  assumes "addonInterfaceObj w = None"
  shows "fst (newAddonInterface h imgs cfg w) =
           fst (loadAddons h cfg imgs (map fst (addons cfg))
             (interfaceLog (logging cfg) ''info'' [''Load addons...'']
                (w \<lparr> addonInterfaceObj := Some \<lparr> ai_addons = [], ai_images = imgs, ai_listeners = [], ai_logging = logging cfg \<rparr> \<rparr>)))"
    and "addonInterfaceObj (snd (newAddonInterface h imgs cfg w)) \<noteq> None"
proof -
  define w2 where "w2 = interfaceLog (logging cfg) ''info'' [''Load addons...'']
      (w \<lparr> addonInterfaceObj := Some \<lparr> ai_addons = [], ai_images = imgs, ai_listeners = [], ai_logging = logging cfg \<rparr> \<rparr>)"
  obtain r w3 where la: "loadAddons h cfg imgs (map fst (addons cfg)) w2 = (r, w3)"
    by (cases "loadAddons h cfg imgs (map fst (addons cfg)) w2")
  from la loadAddons_keeps [of h cfg imgs "map fst (addons cfg)" w2]
  have some: "addonInterfaceObj w3 \<noteq> None" by (simp add: w2_def)
  from assms la show "fst (newAddonInterface h imgs cfg w) =
           fst (loadAddons h cfg imgs (map fst (addons cfg))
             (interfaceLog (logging cfg) ''info'' [''Load addons...'']
                (w \<lparr> addonInterfaceObj := Some \<lparr> ai_addons = [], ai_images = imgs, ai_listeners = [], ai_logging = logging cfg \<rparr> \<rparr>)))"
    by (cases r) (simp_all add: newAddonInterface_def Let_def w2_def [symmetric])
  from assms la some show "addonInterfaceObj (snd (newAddonInterface h imgs cfg w)) \<noteq> None"
    by (cases r) (simp_all add: newAddonInterface_def Let_def w2_def [symmetric] installListeners_fields)
qed

lemma newAddonInterface_TypeError:
  assumes "addonInterfaceObj w = None"
    and "fst (newAddonInterface h imgs cfg w) = Some err"
  shows "\<exists>m. err = TypeError m"
  using assms newAddonInterface_outcome(1) [OF assms(1), of h imgs cfg] loadAddons_TypeError
  by metis

lemma initAddonInterface_new:
  "initAddonInterface h imgs cfg w =
     (case fst (newAddonInterface h imgs cfg w) of
        Some err \<Rightarrow> Inl err
      | None \<Rightarrow> Inr (addonInterfaceObj (snd (newAddonInterface h imgs cfg w))),
      snd (newAddonInterface h imgs cfg w))"
proof (cases "addonInterfaceObj w")
  case None
  then show ?thesis
    by (cases "newAddonInterface h imgs cfg w") (simp add: initAddonInterface_def split: option.splits)
next
  case (Some this)
  then show ?thesis by (simp add: initAddonInterface_def newAddonInterface_def)
qed

lemma attempt_rejected:
  "addonInterfaceObj w \<noteq> None \<Longrightarrow> attempt h c w = (Inl singletonViolation, w)"
  by (cases c) (auto simp: initAddonInterface_def newAddonInterface_def)

lemma attempts_rejected:
  "addonInterfaceObj w \<noteq> None \<Longrightarrow> attempts h cs w = (map (\<lambda>c. Inl singletonViolation) cs, w)"
  by (induction cs) (simp_all add: attempt_rejected)

subsection \<open>Construction of one addon, dispatch\<close>

lemma loadFailure_keeps:
  "loadFailure h cfg imgs n w = Some (err, w') \<Longrightarrow>
   addonInterfaceObj w' = addonInterfaceObj w \<and> installed w' = installed w \<and> called w' = called w"
proof (cases "requireUnit (requireAddon h n)")
  case (Inl e)
  then show ?thesis if "loadFailure h cfg imgs n w = Some (err, w')"
    using that by (simp add: loadFailure_def)
next
  case (Inr u)
  define c where "c = newAddonConfig (lookupAddon (addons cfg) n) (logging cfg) imgs"
  obtain r w1 where cr: "createAddon h c u n w = (r, w1)" by (cases "createAddon h c u n w")
  with createAddon_keeps [of h c u n w]
  have k: "addonInterfaceObj w1 = addonInterfaceObj w" "installed w1 = installed w" "called w1 = called w"
    by simp_all
  show ?thesis if "loadFailure h cfg imgs n w = Some (err, w')"
    using that Inr cr k
    by (simp add: loadFailure_def c_def [symmetric] split: sum.splits newAddon.splits)
qed

lemma newAddonBase_functionStyle:
  "addonInterfaceObj w \<noteq> None \<Longrightarrow>
   newAddonBase (newAddonConfig entry types imgs) (Some (functionStyleName u n)) [] w =
     (Inr (functionStyleBase entry types imgs u n), normalized (newAddonConfig entry types imgs))"
  by (cases entry) (simp_all add: newAddonBase_def functionStyleBase_def newAddonConfig_def functionStyleName_def)

lemma newAddonBase_throws:
  "addonInterfaceObj w \<noteq> None \<Longrightarrow> fst (newAddonBase c loggerName constructorName w) = Inl err \<Longrightarrow>
   readInfo (map_of c ''logger'') = Some err"
  by (simp add: newAddonBase_def split: option.splits)

lemma newAddonBase_leaves:
  "snd (newAddonBase c loggerName constructorName w) =
     (if addonInterfaceObj w = None \<or> readInfo (map_of c ''logger'') \<noteq> None then c else normalized c)"
  by (auto simp: newAddonBase_def split: option.splits)

lemma newAddonConfig_logger: "map_of (newAddonConfig entry types imgs) ''logger'' = Some HostLogger"
  by (cases entry) (simp_all add: newAddonConfig_def)

lemma construct_derived_class:
  assumes "addonInterfaceObj w \<noteq> None"
    and "construct h (newAddonConfig entry types imgs) (DerivedClass n steps e) w = (r, c', w')"
  shows "c' = normalized (newAddonConfig entry types imgs)"
proof -
  from assms(1) obtain this where "addonInterfaceObj w = Some this" by auto
  with newAddonBase_leaves [of "newAddonConfig entry types imgs" None n w]
  have "snd (newAddonBase (newAddonConfig entry types imgs) None n w) = normalized (newAddonConfig entry types imgs)"
    by (simp add: newAddonConfig_logger)
  with assms(2) show ?thesis
    by (auto split: prod.splits sum.splits option.splits ending.splits)
qed

lemma map_of_assigned:
  assumes "k \<noteq> ''__proto__''" and "distinct (map fst xs)"
  shows "map_of (fold (\<lambda>(k, v). AList.update k (f v)) (filter (\<lambda>(k, v). k \<noteq> ''__proto__'') xs) base) k =
           (case map_of xs k of Some v \<Rightarrow> Some (f v) | None \<Rightarrow> map_of base k)"
  using assms(2)
proof (induction xs arbitrary: base)
  case Nil
  show ?case by simp
next
  case (Cons x xs)
  obtain a b where x: "x = (a, b)" by (cases x)
  from Cons.prems have d: "distinct (map fst xs)" and fresh: "a \<notin> fst ` set xs" by (simp_all add: x)
  show ?case
  proof (cases "a = ''__proto__''")
    case True
    with assms(1) have "a \<noteq> k" by auto
    with True x Cons.IH [OF d, of base] show ?thesis by simp
  next
    case False
    show ?thesis
    proof (cases "a = k")
      case True
      with fresh have "map_of xs k = None" by (simp add: map_of_eq_None_iff)
      with True False x Cons.IH [OF d, of "AList.update a (f b) base"] show ?thesis
        by (simp add: update_conv')
    next
      case neq: False
      with False x Cons.IH [OF d, of "AList.update a (f b) base"] show ?thesis
        by (simp add: update_conv' split: option.splits)
    qed
  qed
qed

lemma logger_after_super:
  assumes "distinct (map fst ob)"
  shows "map_of (normalized (newAddonConfig (Some (CfgObject ob)) types imgs)) ''logger'' =
           map_option Js (map_of ob ''logger'')"
  using map_of_assigned [OF _ assms, of "''logger''" Js
      "AList.delete ''logger'' (AList.delete ''images'' (newAddonConfig (Some (CfgObject ob)) types imgs))"]
  by (simp add: normalized_def newAddonConfig_def delete_conv' split: option.splits)

lemma construct_plain_function:
  "\<not> constructible \<or> steps \<noteq> [] \<Longrightarrow>
   \<exists>m. construct h c (PlainFunction n constructible steps e) w = (Inl (TypeError m), c, w)"
  by auto

lemma construct_not_derived:
  "construct h c (PlainFunction n constructible steps e) w = (r, c', w') \<Longrightarrow> c' = c \<and> w' = w"
  "construct h c (ForeignClass n e) w = (r, c', w') \<Longrightarrow> c' = c \<and> w' = w"
  by (auto split: if_splits ending.splits)

lemma fold_pushListener:
  "\<exists>new. fold pushListener es ls = ls @ new \<and> set (ls @ new) = set ls \<union> set es"
proof (induction es arbitrary: ls)
  case Nil
  show ?case by simp
next
  case (Cons e es)
  show ?case
  proof (cases "e \<in> set ls")
    case True
    from Cons.IH [of ls] obtain new where
      "fold pushListener es ls = ls @ new" "set (ls @ new) = set ls \<union> set es" by blast
    with True have "fold pushListener (e # es) ls = ls @ new \<and> set (ls @ new) = set ls \<union> set (e # es)"
      by (auto simp: pushListener_def)
    then show ?thesis by blast
  next
    case False
    from Cons.IH [of "ls @ [e]"] obtain new where
      n: "fold pushListener es (ls @ [e]) = (ls @ [e]) @ new"
      and s: "set ((ls @ [e]) @ new) = set (ls @ [e]) \<union> set es" by blast
    from False n have "fold pushListener (e # es) ls = ls @ (e # new)"
      by (simp add: pushListener_def)
    moreover from s have "set (ls @ (e # new)) = set ls \<union> set (e # es)" by auto
    ultimately show ?thesis by blast
  qed
qed

lemma pushCallbacks_free:
  assumes "\<not> arrayHas h name" and "name \<noteq> ''__proto__''"
  shows "\<exists>a'. pushCallbacks h cbs name a = Inr a'
     \<and> callbacksFor name a' = callbacksFor name a @ cbs
     \<and> (\<forall>other. other \<noteq> name \<longrightarrow> callbacksFor other a' = callbacksFor other a)
     \<and> set (map fst (ab_listeners a')) = insert name (set (map fst (ab_listeners a)))"
proof (cases "map_of (ab_listeners a) name")
  case None
  define a' where "a' = a \<lparr> ab_listeners := ab_listeners a @ [(name, cbs)] \<rparr>"
  from None assms have p: "pushCallbacks h cbs name a = Inr a'"
    by (simp add: pushCallbacks_def a'_def)
  from None have c: "callbacksFor name a' = callbacksFor name a @ cbs"
    by (simp add: callbacksFor_def a'_def map_add_def)
  have o: "callbacksFor other a' = callbacksFor other a" if "other \<noteq> name" for other
    using that by (simp add: callbacksFor_def a'_def map_add_def split: option.splits)
  have k: "set (map fst (ab_listeners a')) = insert name (set (map fst (ab_listeners a)))"
    by (auto simp: a'_def)
  from p c o k show ?thesis by blast
next
  case (Some old)
  define a' where "a' = a \<lparr> ab_listeners := AList.update name (old @ cbs) (ab_listeners a) \<rparr>"
  from Some assms have p: "pushCallbacks h cbs name a = Inr a'"
    by (simp add: pushCallbacks_def a'_def)
  from Some have c: "callbacksFor name a' = callbacksFor name a @ cbs"
    by (simp add: callbacksFor_def a'_def update_conv')
  have o: "callbacksFor other a' = callbacksFor other a" if "other \<noteq> name" for other
    using that by (simp add: callbacksFor_def a'_def update_conv')
  from Some have "name \<in> fst ` set (ab_listeners a)"
    by (metis map_of_eq_None_iff option.distinct(1))
  then have k: "set (map fst (ab_listeners a')) = insert name (set (map fst (ab_listeners a)))"
    by (auto simp: a'_def update_keys)
  from p c o k show ?thesis by blast
qed

lemma pushCallbacks_taken:
  "arrayHas h name \<Longrightarrow> \<exists>m. pushCallbacks h cbs name a = Inl (TypeError m)"
  by (simp add: pushCallbacks_def)

lemma runCallbacks_result:
  "fst (runCallbacks cbs args w) = firstThrown cbs
   \<and> snd (runCallbacks cbs args w) =
       w \<lparr> called := called w @ map (\<lambda>cb. (callbackId cb, args)) (attempted cbs) \<rparr>"
proof (induction cbs arbitrary: w)
  case Nil
  show ?case by simp
next
  case (Cons cb cbs)
  obtain i outcome where cb: "cb = Callback i outcome" by (cases cb)
  show ?case
  proof (cases outcome)
    case None
    with cb Cons.IH [of "w \<lparr> called := called w @ [(i, args)] \<rparr>"] show ?thesis
      by (simp add: Let_def)
  next
    case (Some err)
    with cb show ?thesis by (simp add: Let_def)
  qed
qed

lemma executeAddonCallbacks_result:
  assumes "firstThrown (callbacksFor eventName addon) \<noteq> Some Nullish"
  shows "executeAddonCallbacks (ai_logging this) eventName args addon w =
     (None,
      w \<lparr> called := called w @ map (\<lambda>cb. (callbackId cb, args)) (attempted (callbacksFor eventName addon)),
          hostLog := hostLog w @ callbackFailure this eventName addon \<rparr>)"
proof (cases "map_of (ab_listeners addon) eventName")
  case None
  then show ?thesis
    by (simp add: executeAddonCallbacks_def callbacksFor_def callbackFailure_def)
next
  case (Some cbs)
  obtain r w' where rc: "runCallbacks cbs args w = (r, w')" by (cases "runCallbacks cbs args w")
  with runCallbacks_result [of cbs args w]
  have r: "r = firstThrown cbs"
    and w': "w' = w \<lparr> called := called w @ map (\<lambda>cb. (callbackId cb, args)) (attempted cbs) \<rparr>"
    by simp_all
  show ?thesis
  proof (cases r)
    case None
    with Some rc r w' show ?thesis
      by (simp add: executeAddonCallbacks_def callbacksFor_def callbackFailure_def)
  next
    case (Some err)
    with r have ft: "firstThrown cbs = Some err" by simp
    with assms \<open>map_of (ab_listeners addon) eventName = Some cbs\<close> have "err \<noteq> Nullish"
      by (auto simp: callbacksFor_def)
    then obtain s where "stack err = Inr s" using stack_returns by blast
    with Some ft \<open>map_of (ab_listeners addon) eventName = Some cbs\<close> rc w' show ?thesis
      by (simp add: executeAddonCallbacks_def callbacksFor_def callbackFailure_def interfaceLog_def)
  qed
qed

lemma executeAddonCallbacks_null:
  assumes "firstThrown (callbacksFor eventName addon) = Some Nullish"
  shows "executeAddonCallbacks types eventName args addon w =
     (Some (TypeError (''Cannot read property '' @ quoted ''stack'' @ '' of null'')),
      w \<lparr> called := called w @ map (\<lambda>cb. (callbackId cb, args)) (attempted (callbacksFor eventName addon)) \<rparr>)"
proof (cases "map_of (ab_listeners addon) eventName")
  case None
  with assms show ?thesis by (simp add: callbacksFor_def)
next
  case (Some cbs)
  obtain r w' where rc: "runCallbacks cbs args w = (r, w')" by (cases "runCallbacks cbs args w")
  with runCallbacks_result [of cbs args w]
  have "r = firstThrown cbs"
    and "w' = w \<lparr> called := called w @ map (\<lambda>cb. (callbackId cb, args)) (attempted cbs) \<rparr>"
    by simp_all
  with assms Some rc show ?thesis
    by (simp add: executeAddonCallbacks_def callbacksFor_def)
qed


lemma update_absent: "map_of xs k = None \<Longrightarrow> AList.update k v xs = xs @ [(k, v)]"
  by (induction xs) (auto split: if_splits)

lemma lookupAddon_own: "map_of cfg n = Some v \<Longrightarrow> lookupAddon cfg n = Some v"
  by (simp add: lookupAddon_def)

lemma lookupAddon_undefined: "lookupAddon cfg n = None \<Longrightarrow> map_of cfg n = None"
  by (simp add: lookupAddon_def split: option.splits)

text \<open>
  The definitions a concrete run unfolds.
\<close>

lemmas model_defs =
  newAddonInterface_def loadConfigured_def loadAddon_def createAddon_def newFunctionStyle_def
  newAddonBase_def initializeFailed_def interfaceLog_def getClassLogger_def updateInterface_def
  pushAddon_def pushListener_def registerListener_def pushCallbacks_def sendEvent_def sendFailed_def
  addonLog_def installListeners_def installListener_def interfaceListeners_def normalized_def
  newAddonConfig_def functionStyleName_def lookupAddon_def arrayHas_def objectPrototype_def
  quoted_def validInputEvents_def validListenEvents_def

lemmas example_defs =
  freshWorld_def clockAddon_def brokenAddon_def typoAddon_def nullAddon_def albumAddon_def
  counterAddon_def exampleHost_def exampleConfiguration_def
  shadowedConfiguration_def traversalConfiguration_def nullishConfiguration_def emptyInterface_def
  clockInstance_def startedWorld_def clockLoaded_def dispatchInterface_def

lemmas control_defs =
  addonControl_def usageWanted_def runCommand_def enableCommand_def enableBody_def
  disableCommand_def disableBody_def catchAndPrint_def printError_def writeAndReport_def
  callWriteConfig_def assignEntry_def setEntry_def print_def printStatus_def quoted_def

subsection \<open>C1: one registry per process\<close>

text \<open>
  In a process that has no registry yet, the first call of \<open>initAddonInterface\<close> is
  never refused as a second instance; it leaves the module variable set, and it returns
  the registry it created if the constructor returns. Whatever the first call did,
  every later construction, through the entry point or through the constructor and
  with any arguments, fails with the singleton error and leaves the whole state as it
  was: the registry with its addon list and subscription set, the installed handlers,
  the log and what was sent.
\<close>

lemma later_constructions_are_refused:
  assumes "addonInterfaceObj w = None"
  shows "\<exists>r w1. initAddonInterface h imgs cfg w = (r, w1)
     \<and> r \<noteq> Inl singletonViolation
     \<and> addonInterfaceObj w1 \<noteq> None
     \<and> (fst (newAddonInterface h imgs cfg w) = None \<longrightarrow> r = Inr (addonInterfaceObj w1))
     \<and> (\<forall>h' c. attempt h' c w1 = (Inl singletonViolation, w1))
     \<and> attempts h (ByInit imgs cfg # later) w = (r # map (\<lambda>c. Inl singletonViolation) later, w1)"
proof -
  define r where "r = fst (initAddonInterface h imgs cfg w)"
  define w1 where "w1 = snd (initAddonInterface h imgs cfg w)"
  have eq: "initAddonInterface h imgs cfg w = (r, w1)" by (simp add: r_def w1_def)
  note out = newAddonInterface_outcome [OF assms, of h imgs cfg]
  have some: "addonInterfaceObj w1 \<noteq> None"
    using out(2) by (simp add: w1_def initAddonInterface_new)
  have notsingle: "r \<noteq> Inl singletonViolation"
  proof
    assume "r = Inl singletonViolation"
    then have "fst (newAddonInterface h imgs cfg w) = Some singletonViolation"
      by (simp add: r_def initAddonInterface_new split: option.splits)
    with newAddonInterface_TypeError [OF assms] obtain m where "singletonViolation = TypeError m"
      by blast
    then show False by (simp add: singletonViolation_def)
  qed
  have ok: "r = Inr (addonInterfaceObj w1)" if "fst (newAddonInterface h imgs cfg w) = None"
    using that by (simp add: r_def w1_def initAddonInterface_new)
  from eq some have att: "attempts h (ByInit imgs cfg # later) w = (r # map (\<lambda>c. Inl singletonViolation) later, w1)"
    by (simp add: attempts_rejected)
  from some have rej: "\<forall>h' c. attempt h' c w1 = (Inl singletonViolation, w1)"
    by (simp add: attempt_rejected)
  show ?thesis
    apply (rule exI [of _ r], rule exI [of _ w1])
    using eq some notsingle ok att rej by simp
qed

text \<open>
  A run in which the first call returns the registry and the two calls after it are
  refused.
\<close>

lemma first_call_returns_the_registry:
  "\<exists>this w1. initAddonInterface exampleHost [] exampleConfiguration freshWorld = (Inr (Some this), w1)
     \<and> addonInterfaceObj w1 = Some this
     \<and> map ab_name (ai_addons this) = [''clock'']
     \<and> attempts exampleHost
          [ByInit [] exampleConfiguration, ByInit [] traversalConfiguration, ByNew [''a.jpg''] exampleConfiguration]
          freshWorld
        = ([Inr (Some this), Inl singletonViolation, Inl singletonViolation], w1)"
proof -
  have f: "addonInterfaceObj freshWorld = None" by (simp add: freshWorld_def)
  have n: "fst (newAddonInterface exampleHost [] exampleConfiguration freshWorld) = None"
    by (simp add: model_defs example_defs Let_def)
  have a: "map ab_name (loadedAddons (snd (newAddonInterface exampleHost [] exampleConfiguration freshWorld))) = [''clock'']"
    by (simp add: model_defs example_defs loadedAddons_def Let_def)
  from later_constructions_are_refused [OF f, of exampleHost "[]" exampleConfiguration
      "[ByInit [] traversalConfiguration, ByNew [''a.jpg''] exampleConfiguration]"] n
  obtain r w1 where i: "initAddonInterface exampleHost [] exampleConfiguration freshWorld = (r, w1)"
    and s: "addonInterfaceObj w1 \<noteq> None" and r: "r = Inr (addonInterfaceObj w1)"
    and t: "attempts exampleHost
          [ByInit [] exampleConfiguration, ByInit [] traversalConfiguration, ByNew [''a.jpg''] exampleConfiguration]
          freshWorld = (r # map (\<lambda>c. Inl singletonViolation)
             [ByInit [] traversalConfiguration, ByNew [''a.jpg''] exampleConfiguration], w1)"
    by blast
  from s obtain this where reg: "addonInterfaceObj w1 = Some this" by auto
  from i have "w1 = snd (newAddonInterface exampleHost [] exampleConfiguration freshWorld)"
    by (simp add: initAddonInterface_new)
  with a have "map ab_name (loadedAddons w1) = [''clock'']" by simp
  with reg have "map ab_name (ai_addons this) = [''clock'']" by (simp add: loadedAddons_def)
  with i r t reg show ?thesis by simp
qed

text \<open>
  C1. The claim: the first call of the entry point creates and returns the registry.
  The constructor sets the module variable before it loads the addons, and the loader
  can throw: for the configuration that declares \<open>clock\<close> and \<open>./ evil\<close> the read of
  \<open>enabled\<close> under the sanitised name \<open>evil\<close> throws a \<open>TypeError\<close> that nothing
  catches. The first call ends with it and returns no registry; the module variable
  stays set, so the second and the third call, made with a configuration that loads,
  are refused as second instances: the process never gets a registry, and the object
  the module variable refers to stays as the failed call left it, with \<open>clock\<close>
  loaded.
\<close>

theorem C1_first_call_throws_and_later_calls_are_refused:
  "fst (attempts exampleHost
          [ByInit [] traversalConfiguration, ByInit [] exampleConfiguration, ByNew [] exampleConfiguration]
          freshWorld)
     = [Inl (TypeError (''Cannot read property '' @ quoted ''enabled'' @ '' of undefined'')),
        Inl singletonViolation, Inl singletonViolation]
   \<and> map ab_name (loadedAddons (snd (attempts exampleHost
          [ByInit [] traversalConfiguration, ByInit [] exampleConfiguration, ByNew [] exampleConfiguration]
          freshWorld))) = [''clock'']"
  by (simp add: model_defs example_defs loadedAddons_def initAddonInterface_def isWhiteSpace_def Let_def
        singletonViolation_def)

text \<open>
  The first call also ends with a \<open>TypeError\<close> when the constructor of an addon
  throws \<open>null\<close> (see C3).
\<close>

lemma first_call_throws_after_thrown_null:
  "fst (attempts exampleHost [ByInit [] nullishConfiguration, ByInit [] exampleConfiguration] freshWorld)
     = [Inl (TypeError (''Cannot read property '' @ quoted ''stack'' @ '' of null'')), Inl singletonViolation]"
  by (simp add: model_defs example_defs initAddonInterface_def Let_def singletonViolation_def)

subsection \<open>C2: sanitisation\<close>

text \<open>
  C2. The claim: every dot, slash and white-space character is removed wherever it
  stands. The code removes none of them unless the three stand in a row: the traversal
  name \<open>../evil\<close> comes back as it went in.
\<close>

theorem C2_sanitizer_keeps_traversal:
  "removeInvalidAddonNameChars ''../evil'' = ''../evil''"
  by (simp add: isWhiteSpace_def)

text \<open>
  What the code does remove is the sequence of the three, and a name without a dot is
  never changed.
\<close>

lemma sanitizer_removes_sequence: "removeInvalidAddonNameChars ''a./ b'' = ''ab''"
  by (simp add: isWhiteSpace_def)

lemma sanitizer_without_dot: "CHR ''.'' \<notin> set s \<Longrightarrow> removeInvalidAddonNameChars s = s"
  by (induction s rule: removeInvalidAddonNameChars.induct) auto

subsection \<open>C3: a failing construction\<close>

text \<open>
  Let a declared name reach the loader's \<open>try\<close> block (its entry is read under the
  sanitised name, is an object, is not switched off, and the name is not the reserved
  one), and let the body of the block end with an error: of \<open>require\<close>, of the check
  of the export, of \<open>new\<close>, of the function style, or the error for an object that is
  no \<open>AddonBase\<close>. The registry is then as it was before the name, with the addons
  loaded so far. If the value thrown is an object, the error is caught: the registry's
  logger is given the error line with the addon's name and the stack, nothing leaves
  the loop body, and the loop goes on with the names that follow.
\<close>

lemma failed_addon_is_skipped:
  assumes "name = removeInvalidAddonNameChars key"
    and "getProperty (lookupAddon (addons cfg) name) ''enabled'' = Inr enabled"
    and "enabled \<noteq> Some (VBool False)"
    and "name \<noteq> ''addonInterface''"
    and "typeofObject (lookupAddon (addons cfg) name)"
    and "loadFailure h cfg imgs name w = Some (err, w')"
    and "err \<noteq> Nullish"
  shows "\<exists>s. stack err = Inr s
     \<and> loadConfigured h cfg imgs key w =
         (None, w' \<lparr> hostLog := hostLog w' @
            getClassLogger ''AddonInterface'' (logging cfg) ''error''
              [''Error initialize addon '' @ quoted name @ ''! Addon was disabled.\<newline>'', s] \<rparr>)
     \<and> addonInterfaceObj w' = addonInterfaceObj w
     \<and> loadAddons h cfg imgs (key # keys) w =
         loadAddons h cfg imgs keys (w' \<lparr> hostLog := hostLog w' @
            getClassLogger ''AddonInterface'' (logging cfg) ''error''
              [''Error initialize addon '' @ quoted name @ ''! Addon was disabled.\<newline>'', s] \<rparr>)"
proof -
  from assms(7) obtain s where s: "stack err = Inr s" using stack_returns by blast
  from loadFailure_keeps [OF assms(6)] have k: "addonInterfaceObj w' = addonInterfaceObj w" by simp
  from loadAddon_failed [OF assms(6)] s
  have la: "loadAddon h cfg imgs name w =
      (None, w' \<lparr> hostLog := hostLog w' @
            getClassLogger ''AddonInterface'' (logging cfg) ''error''
              [''Error initialize addon '' @ quoted name @ ''! Addon was disabled.\<newline>'', s] \<rparr>)"
    by (simp add: initializeFailed_def interfaceLog_def)
  from assms(1-5) la have lc: "loadConfigured h cfg imgs key w =
      (None, w' \<lparr> hostLog := hostLog w' @
            getClassLogger ''AddonInterface'' (logging cfg) ''error''
              [''Error initialize addon '' @ quoted name @ ''! Addon was disabled.\<newline>'', s] \<rparr>)"
    by (simp add: loadConfigured_def Let_def)
  from s lc k show ?thesis by simp
qed

text \<open>
  If the value thrown is \<open>null\<close> or \<open>undefined\<close>, the \<open>catch\<close> block throws: the
  \<open>TypeError\<close> leaves the loop body and the loop, nothing is logged, and the names
  that follow are not looked at.
\<close>

lemma thrown_null_ends_the_loop:
  assumes "name = removeInvalidAddonNameChars key"
    and "getProperty (lookupAddon (addons cfg) name) ''enabled'' = Inr enabled"
    and "enabled \<noteq> Some (VBool False)"
    and "name \<noteq> ''addonInterface''"
    and "typeofObject (lookupAddon (addons cfg) name)"
    and "loadFailure h cfg imgs name w = Some (Nullish, w')"
  shows "loadAddons h cfg imgs (key # keys) w =
           (Some (TypeError (''Cannot read property '' @ quoted ''stack'' @ '' of null'')), w')"
proof -
  from loadAddon_failed [OF assms(6)]
  have "loadAddon h cfg imgs name w =
      (Some (TypeError (''Cannot read property '' @ quoted ''stack'' @ '' of null'')), w')"
    by (simp add: initializeFailed_def)
  with assms(1-5) show ?thesis by (simp add: loadConfigured_def Let_def)
qed

text \<open>
  A run in which a construction fails with an \<open>Error\<close>: the registry holds \<open>clock\<close>
  when the constructor of \<open>broken\<close> throws; the error is logged, \<open>clock\<close> stays
  loaded, and \<open>album\<close> is loaded after it.
\<close>

lemma failed_addon_is_skipped_run:
  "fst (newAddonInterface exampleHost []
          \<lparr> logging = [''error''],
            addons = [(''clock'', CfgObject []), (''broken'', CfgObject []), (''album'', CfgObject [])] \<rparr>
          freshWorld) = None
   \<and> map ab_name (loadedAddons (snd (newAddonInterface exampleHost []
          \<lparr> logging = [''error''],
            addons = [(''clock'', CfgObject []), (''broken'', CfgObject []), (''album'', CfgObject [])] \<rparr>
          freshWorld))) = [''clock'', ''Album'']
   \<and> hostLog (snd (newAddonInterface exampleHost []
          \<lparr> logging = [''error''],
            addons = [(''clock'', CfgObject []), (''broken'', CfgObject []), (''album'', CfgObject [])] \<rparr>
          freshWorld))
       = [(''error'', ''[AddonInterface] Error initialize addon '' @ quoted ''broken''
                     @ ''! Addon was disabled.\<newline>,Error: no network'')]"
  by (simp add: model_defs example_defs loadedAddons_def Let_def)

text \<open>
  C3. The claim: a construction that fails with any error but the \<open>TypeError\<close> of the
  fallback is caught, logged and skipped, and never ends the load. The \<open>catch\<close> block
  of the loader reads \<open>error.stack\<close>, which throws when the value caught is \<open>null\<close> or
  \<open>undefined\<close>. The configuration declares \<open>clock\<close>, \<open>nuller\<close> and \<open>album\<close>; the
  constructor of \<open>nuller\<close> throws \<open>null\<close>, which is no \<open>TypeError\<close>. The construction
  of the registry ends with the \<open>TypeError\<close> of the \<open>catch\<close> block: \<open>clock\<close> is
  loaded, nothing is logged for \<open>nuller\<close>, \<open>album\<close> is never loaded and no handler is
  installed.
\<close>

theorem C3_thrown_null_ends_the_load:
  "construct exampleHost (newAddonConfig (Some (CfgObject [])) [''info'', ''warn'', ''error''] []) nullAddon startedWorld
     = (Inl Nullish, [(''logTypes'', Js (VStrings [''info'', ''warn'', ''error'']))], startedWorld)
   \<and> instanceofTypeError Nullish = False
   \<and> fst (newAddonInterface exampleHost [] nullishConfiguration freshWorld)
       = Some (TypeError (''Cannot read property '' @ quoted ''stack'' @ '' of null''))
   \<and> fst (initAddonInterface exampleHost [] nullishConfiguration freshWorld)
       = Inl (TypeError (''Cannot read property '' @ quoted ''stack'' @ '' of null''))
   \<and> map ab_name (loadedAddons (snd (newAddonInterface exampleHost [] nullishConfiguration freshWorld)))
       = [''clock'']
   \<and> installed (snd (newAddonInterface exampleHost [] nullishConfiguration freshWorld)) = []
   \<and> hostLog (snd (newAddonInterface exampleHost [] nullishConfiguration freshWorld))
       = [(''info'', ''[AddonInterface] Load addons...''),
          (''warn'', ''[addon clock] sendEvent: Ignored invalid eventName '' @ quoted ''explode'' @ ''!''),
          (''info'', ''[AddonInterface] Successfully loaded addon '' @ quoted ''clock'' @ ''.'')]"
  by (simp add: model_defs example_defs loadedAddons_def initAddonInterface_def Let_def)

subsection \<open>C4: the function-style fallback\<close>

text \<open>
  C4 as stated fails for a class that extends \<open>AddonBase\<close> and whose constructor throws
  a \<open>TypeError\<close> after \<open>super(config)\<close>: the loader takes the function style, but it
  neither makes an instance nor calls the unit. The first \<open>super(config)\<close> has deleted
  \<open>addonConfig.logger\<close>, and the base constructor, run on the same object again, throws
  at the read of \<open>logger.info\<close>. Here the constructor of \<open>typo\<close> throws a
  \<open>TypeError\<close>; the object it leaves has no logger, the base constructor throws on it,
  and that error is the outcome.
\<close>

theorem C4_derived_class_counterexample:
  "construct exampleHost (newAddonConfig (Some (CfgObject [])) [''warn'', ''error''] []) typoAddon startedWorld
     = (Inl (TypeError ''this.start is not a function''),
        [(''logTypes'', Js (VStrings [''warn'', ''error'']))], startedWorld)
   \<and> newAddonBase [(''logTypes'', Js (VStrings [''warn'', ''error'']))] (Some ''Typo'') [] startedWorld
       = (Inl (TypeError (''Cannot read property '' @ quoted ''info'' @ '' of undefined'')),
          [(''logTypes'', Js (VStrings [''warn'', ''error'']))])
   \<and> createAddon exampleHost (newAddonConfig (Some (CfgObject [])) [''warn'', ''error''] []) typoAddon ''typo''
         startedWorld
       = (Inl (TypeError (''Cannot read property '' @ quoted ''info'' @ '' of undefined'')), startedWorld)"
  by (simp add: model_defs example_defs)

text \<open>
  C4, amended. While the registry exists, for the unit a module gave and the object the
  loader made for the addon's entry: when \<open>new\<close> returns, its result is taken; when
  \<open>new\<close> throws an error that is no \<open>TypeError\<close>, the error is passed on unchanged and
  is the error the loader's \<open>try\<close> block ends with (C3); when \<open>new\<close> throws a
  \<open>TypeError\<close>, the loader takes the function style. For a unit that is no class
  extending \<open>AddonBase\<close>, \<open>new\<close> has changed nothing: the loader makes an
  \<open>AddonBase\<close> instance (named after the unit or, for a unit without a name, after the
  addon; with the host's images and logger) and calls the unit with it, taking the
  instance when the call returns and the call's error when it throws. For a class
  extending \<open>AddonBase\<close> the base constructor runs on the object as the failed \<open>new\<close>
  left it, that is without the host's logger and with the properties of the addon's
  entry: it throws if the read of \<open>logger.info\<close> throws, as it does unless the entry
  has a property \<open>logger\<close> that is not \<open>null\<close>, and otherwise the call of the class
  throws; either way the outcome is a \<open>TypeError\<close>. A plain function that
  \<open>new\<close> rejects and that returns from its calls of \<open>registerListener\<close> and
  \<open>sendEvent\<close> on the instance is loaded: the instance these calls leave is appended
  to the registry's addons, and the names it registered are added to the subscription
  set behind the names already there.
\<close>

theorem C4_type_mismatch_takes_function_style:
  assumes "addonInterfaceObj w = Some this"
    and "requireUnit (requireAddon h addonName) = Inr u"
    and "c = newAddonConfig (lookupAddon (addons cfg) addonName) (logging cfg) imgs"
    and "base = functionStyleBase (lookupAddon (addons cfg) addonName) (logging cfg) imgs u addonName"
  shows "(\<forall>newAddon c' w'. construct h c u w = (Inr newAddon, c', w') \<longrightarrow>
            createAddon h c u addonName w = (Inr newAddon, w'))
     \<and> (\<forall>err c' w'. construct h c u w = (Inl err, c', w') \<and> \<not> instanceofTypeError err \<longrightarrow>
            createAddon h c u addonName w = (Inl err, w')
            \<and> loadFailure h cfg imgs addonName w = Some (err, w'))
     \<and> (\<forall>err c' w'. construct h c u w = (Inl err, c', w') \<and> instanceofTypeError err \<longrightarrow>
            (case u of
               DerivedClass n steps e \<Rightarrow>
                 c' = normalized c \<and>
                 createAddon h c u addonName w =
                   (case readInfo (map_of c' ''logger'') of
                      Some infoErr \<Rightarrow> (Inl infoErr, w')
                    | None \<Rightarrow> (Inl (TypeError ''Class constructor cannot be invoked without new''), w'))
             | other \<Rightarrow>
                 c' = c \<and> w' = w \<and>
                 createAddon h c u addonName w =
                   (case invoke h u base w of
                      (None, a, w'') \<Rightarrow> (Inr (AddonInstance a), w'')
                    | (Some e, a, w'') \<Rightarrow> (Inl e, w''))))
     \<and> (\<forall>n constructible steps a w''.
            u = PlainFunction n constructible steps Returns \<and> (\<not> constructible \<or> steps \<noteq> [])
            \<and> runSteps h steps base w = (None, a, w'') \<longrightarrow>
            createAddon h c u addonName w = (Inr (AddonInstance a), w'')
            \<and> fst (loadAddon h cfg imgs addonName w) = None
            \<and> (\<exists>this' new. addonInterfaceObj (snd (loadAddon h cfg imgs addonName w)) = Some this'
                  \<and> ai_addons this' = ai_addons this @ [a]
                  \<and> ai_listeners this' = ai_listeners this @ new
                  \<and> set (ai_listeners this') = set (ai_listeners this) \<union> set (map fst (ab_listeners a))))"
proof (intro conjI allI impI)
  fix newAddon c' w'
  assume "construct h c u w = (Inr newAddon, c', w')"
  then show "createAddon h c u addonName w = (Inr newAddon, w')"
    by (simp add: createAddon_def)
next
  fix err c' w'
  assume a: "construct h c u w = (Inl err, c', w') \<and> \<not> instanceofTypeError err"
  then show ca: "createAddon h c u addonName w = (Inl err, w')"
    by (simp add: createAddon_def)
  with assms(2) show "loadFailure h cfg imgs addonName w = Some (err, w')"
    by (simp add: loadFailure_def assms(3) [symmetric])
next
  fix err c' w'
  assume a: "construct h c u w = (Inl err, c', w') \<and> instanceofTypeError err"
  from a construct_keeps [of h c u w] assms(1) have reg: "addonInterfaceObj w' \<noteq> None" by simp
  show "case u of
          DerivedClass n steps e \<Rightarrow>
            c' = normalized c \<and>
            createAddon h c u addonName w =
              (case readInfo (map_of c' ''logger'') of
                 Some infoErr \<Rightarrow> (Inl infoErr, w')
               | None \<Rightarrow> (Inl (TypeError ''Class constructor cannot be invoked without new''), w'))
        | other \<Rightarrow>
            c' = c \<and> w' = w \<and>
            createAddon h c u addonName w =
              (case invoke h u base w of
                 (None, a, w'') \<Rightarrow> (Inr (AddonInstance a), w'')
               | (Some e, a, w'') \<Rightarrow> (Inl e, w''))"
  proof (cases u)
    case (DerivedClass n steps e)
    from a have "createAddon h c u addonName w = newFunctionStyle h c' u addonName w'"
      by (simp add: createAddon_def)
    also from reg DerivedClass have "\<dots> =
        (case readInfo (map_of c' ''logger'') of
           Some infoErr \<Rightarrow> (Inl infoErr, w')
         | None \<Rightarrow> (Inl (TypeError ''Class constructor cannot be invoked without new''), w'))"
      by (auto simp: newFunctionStyle_def newAddonBase_def split: option.splits)
    finally have ca: "createAddon h c u addonName w =
        (case readInfo (map_of c' ''logger'') of
           Some infoErr \<Rightarrow> (Inl infoErr, w')
         | None \<Rightarrow> (Inl (TypeError ''Class constructor cannot be invoked without new''), w'))" .
    from a DerivedClass assms(1) construct_derived_class [of w h _ _ _ n steps e "Inl err" c' w']
    have "c' = normalized c" unfolding assms(3) by simp
    with ca show ?thesis using DerivedClass by simp
  next
    case (ForeignClass n e)
    with a construct_not_derived(2) [of h c n e w "Inl err" c' w'] have same: "c' = c \<and> w' = w" by simp
    from assms(1) have nb: "newAddonBase c (Some (functionStyleName u addonName)) [] w = (Inr base, normalized c)"
      unfolding assms(3) assms(4) by (simp add: newAddonBase_functionStyle)
    from a same have "createAddon h c u addonName w = newFunctionStyle h c u addonName w"
      by (simp add: createAddon_def)
    also have "\<dots> = (case invoke h u base w of
                 (None, a, w'') \<Rightarrow> (Inr (AddonInstance a), w'')
               | (Some e, a, w'') \<Rightarrow> (Inl e, w''))"
      unfolding newFunctionStyle_def nb by (simp split: prod.splits option.splits)
    finally show ?thesis using ForeignClass same by simp
  next
    case (PlainFunction n k steps e)
    with a construct_not_derived(1) [of h c n k steps e w "Inl err" c' w'] have same: "c' = c \<and> w' = w" by simp
    from assms(1) have nb: "newAddonBase c (Some (functionStyleName u addonName)) [] w = (Inr base, normalized c)"
      unfolding assms(3) assms(4) by (simp add: newAddonBase_functionStyle)
    from a same have "createAddon h c u addonName w = newFunctionStyle h c u addonName w"
      by (simp add: createAddon_def)
    also have "\<dots> = (case invoke h u base w of
                 (None, a, w'') \<Rightarrow> (Inr (AddonInstance a), w'')
               | (Some e, a, w'') \<Rightarrow> (Inl e, w''))"
      unfolding newFunctionStyle_def nb by (simp split: prod.splits option.splits)
    finally show ?thesis using PlainFunction same by simp
  qed
next
  fix n constructible steps a w''
  assume p: "u = PlainFunction n constructible steps Returns \<and> (\<not> constructible \<or> steps \<noteq> [])
            \<and> runSteps h steps base w = (None, a, w'')"
  then obtain m where cs: "construct h c u w = (Inl (TypeError m), c, w)"
    using construct_plain_function [of constructible steps h c n Returns w] by blast
  from p have iv: "invoke h u base w = (None, a, w'')" by simp
  from assms(1) have nb: "newAddonBase c (Some (functionStyleName u addonName)) [] w = (Inr base, normalized c)"
    unfolding assms(3) assms(4) by (simp add: newAddonBase_functionStyle)
  have "newFunctionStyle h c u addonName w = (Inr (AddonInstance a), w'')"
    unfolding newFunctionStyle_def nb by (simp add: iv)
  with cs show ca: "createAddon h c u addonName w = (Inr (AddonInstance a), w'')"
    by (simp add: createAddon_def)
  from p runSteps_keeps [of h steps base w] assms(1)
  have reg: "addonInterfaceObj w'' = Some this" by simp
  from ca assms(2) have la: "loadAddon h cfg imgs addonName w =
      (None, interfaceLog (logging cfg) ''info'' [''Successfully loaded addon '' @ quoted addonName @ ''.'']
               (updateInterface (pushAddon a) w''))"
    unfolding loadAddon_def assms(3) [symmetric] by (simp add: Let_def)
  then show "fst (loadAddon h cfg imgs addonName w) = None" by simp
  from fold_pushListener [of "map fst (ab_listeners a)" "ai_listeners this"] obtain new where
    f: "fold pushListener (map fst (ab_listeners a)) (ai_listeners this) = ai_listeners this @ new"
    and s: "set (ai_listeners this @ new) = set (ai_listeners this) \<union> set (map fst (ab_listeners a))"
    by blast
  from la reg have "addonInterfaceObj (snd (loadAddon h cfg imgs addonName w)) = Some (pushAddon a this)"
    by simp
  moreover have "ai_addons (pushAddon a this) = ai_addons this @ [a]" by (simp add: pushAddon_def)
  moreover from f have "ai_listeners (pushAddon a this) = ai_listeners this @ new" by (simp add: pushAddon_def)
  moreover from f s have "set (ai_listeners (pushAddon a this)) = set (ai_listeners this) \<union> set (map fst (ab_listeners a))"
    by (simp add: pushAddon_def)
  ultimately show "\<exists>this' new. addonInterfaceObj (snd (loadAddon h cfg imgs addonName w)) = Some this'
                  \<and> ai_addons this' = ai_addons this @ [a]
                  \<and> ai_listeners this' = ai_listeners this @ new
                  \<and> set (ai_listeners this') = set (ai_listeners this) \<union> set (map fst (ab_listeners a))"
    by blast
qed

text \<open>
  A run of the amended C4: \<open>clock\<close> is an arrow function; \<open>new\<close> rejects it with a
  \<open>TypeError\<close>, it registers a callback for two names and sends two events on the
  instance it is given, and is loaded.
\<close>

theorem C4_witness:
  "addonInterfaceObj startedWorld = Some emptyInterface
   \<and> requireUnit (requireAddon exampleHost ''clock'') = Inr clockAddon
   \<and> construct exampleHost
        (newAddonConfig (lookupAddon (addons exampleConfiguration) ''clock'') (logging exampleConfiguration) [])
        clockAddon startedWorld
       = (Inl (TypeError ''AddonClass is not a constructor''),
          newAddonConfig (lookupAddon (addons exampleConfiguration) ''clock'') (logging exampleConfiguration) [],
          startedWorld)
   \<and> createAddon exampleHost
        (newAddonConfig (lookupAddon (addons exampleConfiguration) ''clock'') (logging exampleConfiguration) [])
        clockAddon ''clock'' startedWorld
       = (Inr (AddonInstance clockLoaded),
          startedWorld \<lparr> hostLog := [(''warn'', ''[addon clock] sendEvent: Ignored invalid eventName ''
                                          @ quoted ''explode'' @ ''!'')],
                         emitted := [(''next'', [])] \<rparr>)
   \<and> fst (loadAddon exampleHost exampleConfiguration [] ''clock'' startedWorld) = None
   \<and> loadedAddons (snd (loadAddon exampleHost exampleConfiguration [] ''clock'' startedWorld)) = [clockLoaded]
   \<and> set (interfaceListeners (snd (loadAddon exampleHost exampleConfiguration [] ''clock'' startedWorld)))
       = {''newImage'', ''tick''}"
proof -
  define c where "c = newAddonConfig (lookupAddon (addons exampleConfiguration) ''clock'') (logging exampleConfiguration) []"
  define base where "base = functionStyleBase (lookupAddon (addons exampleConfiguration) ''clock'')
      (logging exampleConfiguration) [] clockAddon ''clock''"
  define w'' where "w'' = startedWorld \<lparr> hostLog := [(''warn'', ''[addon clock] sendEvent: Ignored invalid eventName ''
                                          @ quoted ''explode'' @ ''!'')],
                         emitted := [(''next'', [])] \<rparr>"
  have s: "addonInterfaceObj startedWorld = Some emptyInterface"
    by (simp add: startedWorld_def)
  have r: "requireUnit (requireAddon exampleHost ''clock'') = Inr clockAddon"
    by (simp add: exampleHost_def)
  have n: "construct exampleHost c clockAddon startedWorld = (Inl (TypeError ''AddonClass is not a constructor''), c, startedWorld)"
    by (simp add: clockAddon_def)
  have run: "runSteps exampleHost
        [RegisterListener (Many [''newImage'', ''tick'']) (One (Callback 1 None)),
         SendEvent ''next'' [], SendEvent ''explode'' []]
        base startedWorld
      = (None, clockLoaded, w'')"
    by (simp add: model_defs example_defs functionStyleBase_def base_def w''_def Let_def)
  have p: "clockAddon = PlainFunction ''clock'' False
        [RegisterListener (Many [''newImage'', ''tick'']) (One (Callback 1 None)),
         SendEvent ''next'' [], SendEvent ''explode'' []] Returns
      \<and> (\<not> False \<or> [RegisterListener (Many [''newImage'', ''tick'']) (One (Callback 1 None)),
         SendEvent ''next'' [], SendEvent ''explode'' []] \<noteq> [])
      \<and> runSteps exampleHost
        [RegisterListener (Many [''newImage'', ''tick'']) (One (Callback 1 None)),
         SendEvent ''next'' [], SendEvent ''explode'' []]
        base startedWorld
      = (None, clockLoaded, w'')"
    using run by (simp add: clockAddon_def)
  from C4_type_mismatch_takes_function_style [OF s r c_def base_def]
  have "\<forall>n constructible steps a w''.
            clockAddon = PlainFunction n constructible steps Returns \<and> (\<not> constructible \<or> steps \<noteq> [])
            \<and> runSteps exampleHost steps base startedWorld = (None, a, w'') \<longrightarrow>
            createAddon exampleHost c clockAddon ''clock'' startedWorld = (Inr (AddonInstance a), w'')
            \<and> fst (loadAddon exampleHost exampleConfiguration [] ''clock'' startedWorld) = None
            \<and> (\<exists>this' new. addonInterfaceObj (snd (loadAddon exampleHost exampleConfiguration [] ''clock'' startedWorld)) = Some this'
                  \<and> ai_addons this' = ai_addons emptyInterface @ [a]
                  \<and> ai_listeners this' = ai_listeners emptyInterface @ new
                  \<and> set (ai_listeners this') = set (ai_listeners emptyInterface) \<union> set (map fst (ab_listeners a)))"
    by blast
  from this [rule_format, OF p] obtain this' new where
    ca: "createAddon exampleHost c clockAddon ''clock'' startedWorld = (Inr (AddonInstance clockLoaded), w'')"
    and la: "fst (loadAddon exampleHost exampleConfiguration [] ''clock'' startedWorld) = None"
    and reg: "addonInterfaceObj (snd (loadAddon exampleHost exampleConfiguration [] ''clock'' startedWorld)) = Some this'"
    and ad: "ai_addons this' = ai_addons emptyInterface @ [clockLoaded]"
    and ls: "set (ai_listeners this') = set (ai_listeners emptyInterface) \<union> set (map fst (ab_listeners clockLoaded))"
    by blast
  from reg ad have l: "loadedAddons (snd (loadAddon exampleHost exampleConfiguration [] ''clock'' startedWorld)) = [clockLoaded]"
    by (simp add: loadedAddons_def emptyInterface_def)
  from reg ls have i: "set (interfaceListeners (snd (loadAddon exampleHost exampleConfiguration [] ''clock'' startedWorld)))
       = {''newImage'', ''tick''}"
    by (simp add: interfaceListeners_def emptyInterface_def clockLoaded_def)
  from s r n ca la l i show ?thesis by (simp add: c_def w''_def)
qed

text \<open>
  The calls a function-style addon makes on its instance: \<open>registerListener\<close> with a
  name that is free (no property of every array) adds the callbacks behind those
  registered for the name before and leaves the other names alone; with a name every
  array has as a property it throws a \<open>TypeError\<close>, which ends the unit: the arrow
  function \<open>counter\<close>, which registers a callback for \<open>length\<close>, is not loaded. What
  \<open>sendEvent\<close> does is the subject of C5.
\<close>

lemma registerListener_free_name:
  assumes "\<not> arrayHas h name" and "name \<noteq> ''__proto__''"
  shows "\<exists>a'. registerListener h (One name) callbacks a = (None, a')
     \<and> callbacksFor name a' = callbacksFor name a @ toArray callbacks
     \<and> (\<forall>other. other \<noteq> name \<longrightarrow> callbacksFor other a' = callbacksFor other a)"
proof -
  from pushCallbacks_free [OF assms, of "toArray callbacks" a] obtain a' where
    "pushCallbacks h (toArray callbacks) name a = Inr a'"
    "callbacksFor name a' = callbacksFor name a @ toArray callbacks"
    "\<forall>other. other \<noteq> name \<longrightarrow> callbacksFor other a' = callbacksFor other a"
    by blast
  then show ?thesis by (simp add: registerListener_def)
qed

lemma registerListener_array_property:
  "arrayHas h name \<Longrightarrow> \<exists>m. registerListener h (One name) callbacks a = (Some (TypeError m), a)"
  using pushCallbacks_taken [of h name "toArray callbacks" a] by (auto simp: registerListener_def)

lemma array_property_is_not_registered:
  "loadAddon exampleHost \<lparr> logging = [''error''], addons = [(''counter'', CfgObject [])] \<rparr> [] ''counter'' startedWorld
     = (None, startedWorld \<lparr> hostLog :=
          [(''error'', ''[AddonInterface] Error initialize addon '' @ quoted ''counter''
              @ ''! Addon was disabled.\<newline>,TypeError: this.listeners[name].push is not a function'')] \<rparr>)"
  by (simp add: model_defs example_defs)

text \<open>
  The object a class extending \<open>AddonBase\<close> leaves behind has the \<open>logger\<close> of the
  addon's entry, if any: the base constructor of the function style throws on it
  exactly when the entry has no such property or has \<open>null\<close> there.
\<close>

lemma fallback_after_super:
  assumes "distinct (map fst ob)"
  shows "readInfo (map_of (normalized (newAddonConfig (Some (CfgObject ob)) types imgs)) ''logger'') = None
         \<longleftrightarrow> (\<exists>v. map_of ob ''logger'' = Some v \<and> v \<noteq> VNull)"
proof (cases "map_of ob ''logger''")
  case None
  then show ?thesis by (simp add: logger_after_super [OF assms])
next
  case (Some v)
  then show ?thesis by (cases v) (simp_all add: logger_after_super [OF assms])
qed

subsection \<open>C5: sending an event\<close>

text \<open>
  For an instance with the host's logger (every instance the loader keeps is one) and
  any event name, while the registry exists: the emitter receives the call if and only
  if the name is in the outbound vocabulary; for a name outside it the addon's own
  logger, whose lines carry the addon's name, is given the warning and nothing else
  happens; and when the emitter throws an object, the same logger is given the error
  with the stack. In all these cases the method returns.
\<close>

lemma sendEvent_validates:
  assumes "addonInterfaceObj w = Some this"
    and "ab_logger a = Some HostLogger"
    and "ab_logTypes a = Some (Js (VStrings types))"
    and "emitterSend h eventName args \<noteq> Some Nullish"
  shows "fst (sendEvent h a eventName args w) = None
     \<and> emitted (snd (sendEvent h a eventName args w)) =
         (if eventName \<in> set validInputEvents then emitted w @ [(eventName, args)] else emitted w)
     \<and> hostLog (snd (sendEvent h a eventName args w)) =
         hostLog w @
         (if eventName \<in> set validInputEvents
          then (case emitterSend h eventName args of
                  None \<Rightarrow> []
                | Some err \<Rightarrow>
                    (case stack err of
                       Inl stackErr \<Rightarrow> []
                     | Inr s \<Rightarrow>
                         getClassLogger (''addon '' @ ab_name a) types ''error''
                           [''Error send input event '' @ eventName @ ''!\<newline>'', s]))
          else getClassLogger (''addon '' @ ab_name a) types ''warn''
                 [''sendEvent: Ignored invalid eventName '' @ quoted eventName @ ''!''])"
proof (cases "emitterSend h eventName args")
  case None
  with assms show ?thesis
    by (simp add: sendEvent_def Let_def addonLog_hostLogger)
next
  case (Some err)
  with assms(4) obtain s where "stack err = Inr s" using stack_returns by auto
  with Some assms show ?thesis
    by (simp add: sendEvent_def sendFailed_def Let_def addonLog_hostLogger)
qed

text \<open>
  Runs: the name \<open>explode\<close> does not reach the emitter and the warning is logged; an
  emitter that throws an \<open>Error\<close> gets the call, and the error is logged.
\<close>

lemma sendEvent_runs:
  "sendEvent exampleHost clockInstance ''explode'' [] startedWorld
     = (None, startedWorld \<lparr> hostLog :=
          [(''warn'', ''[addon clock] sendEvent: Ignored invalid eventName '' @ quoted ''explode'' @ ''!'')] \<rparr>)
   \<and> sendEvent (exampleHost \<lparr> emitterSend := \<lambda>eventName args. Some (OtherError ''window closed'') \<rparr>)
        clockInstance ''next'' [] startedWorld
     = (None, startedWorld \<lparr> hostLog :=
          [(''error'', ''[addon clock] Error send input event next!\<newline>,Error: window closed'')],
          emitted := [(''next'', [])] \<rparr>)"
  by (simp add: model_defs example_defs Let_def)

text \<open>
  C5. The claim: when the forward throws, the error is caught and logged and does not
  propagate. The \<open>catch\<close> block reads \<open>error.stack\<close> before it calls the logger; when
  the emitter throws \<open>null\<close> or \<open>undefined\<close>, that read throws a \<open>TypeError\<close>, which
  leaves \<open>sendEvent\<close>, and nothing is logged.
\<close>

theorem C5_thrown_null_leaves_sendEvent:
  "sendEvent (exampleHost \<lparr> emitterSend := \<lambda>eventName args. Some Nullish \<rparr>) clockInstance ''next'' []
     startedWorld
     = (Some (TypeError (''Cannot read property '' @ quoted ''stack'' @ '' of null'')),
        startedWorld \<lparr> emitted := [(''next'', [])] \<rparr>)
   \<and> hostLog (snd (sendEvent (exampleHost \<lparr> emitterSend := \<lambda>eventName args. Some Nullish \<rparr>) clockInstance
        ''next'' [] startedWorld)) = []"
  by (simp add: model_defs example_defs Let_def)

subsection \<open>C6: dispatch\<close>




text \<open>
  What a thrown \<open>null\<close> does to the dispatch, in general: the addons before the one
  whose list ends with it are served as above, the callbacks of that addon are called
  up to and with the one that throws, and the \<open>TypeError\<close> of the \<open>catch\<close> block leaves
  the dispatcher.
\<close>

lemma dispatch_stops_at_thrown_null:
  assumes "\<forall>addon \<in> set before. firstThrown (callbacksFor eventName addon) \<noteq> Some Nullish"
    and "firstThrown (callbacksFor eventName addon) = Some Nullish"
  shows "executeForEach (ai_logging this) eventName args (before @ addon # rest) w =
     (Some (TypeError (''Cannot read property '' @ quoted ''stack'' @ '' of null'')),
      w \<lparr> called := called w @
            concat (map (\<lambda>addon. map (\<lambda>cb. (callbackId cb, args)) (attempted (callbacksFor eventName addon)))
                      (before @ [addon])),
          hostLog := hostLog w @ concat (map (callbackFailure this eventName) before) \<rparr>)"
  using assms
proof (induction before arbitrary: w)
  case Nil
  then show ?case by (simp add: executeAddonCallbacks_null)
next
  case (Cons b before)
  then show ?case by (simp add: executeAddonCallbacks_result)
qed

subsection \<open>C7: installed handlers\<close>

text \<open>
  The loop that installs the handlers throws nothing: the constructor ends with an
  exception only if the loader does (see C3 and C10 for when it does).
\<close>

lemma installing_throws_nothing:
  assumes "addonInterfaceObj w = None"
  shows "fst (newAddonInterface h imgs cfg w) =
           fst (loadAddons h cfg imgs (map fst (addons cfg))
             (interfaceLog (logging cfg) ''info'' [''Load addons...'']
                (w \<lparr> addonInterfaceObj := Some \<lparr> ai_addons = [], ai_images = imgs, ai_listeners = [], ai_logging = logging cfg \<rparr> \<rparr>)))"
  using assms by (rule newAddonInterface_outcome(1))

text \<open>
  C7. After a construction of the registry, that is when the constructor has returned,
  whatever the addons subscribed to: the handlers it installed on the inbound event
  source are, in order, the names of the subscription set that are in the inbound
  vocabulary. A subscribed name has a handler if and only if it is in the vocabulary,
  what was installed is within the vocabulary, and for a subscribed name outside it the
  registry's logger is given the warning (the line is in the host log when \<open>warn\<close> is
  enabled) and nothing is installed.
\<close>

theorem C7_installed_within_vocabulary:
  assumes "newAddonInterface h imgs cfg w = (None, w')"
  shows "installed w' = installed w @ filter (\<lambda>e. e \<in> set validListenEvents) (interfaceListeners w')
     \<and> (\<forall>e \<in> set (interfaceListeners w').
           e \<in> set (drop (length (installed w)) (installed w')) \<longleftrightarrow> e \<in> set validListenEvents)
     \<and> set (drop (length (installed w)) (installed w')) \<subseteq> set validListenEvents
     \<and> (\<forall>e \<in> set (interfaceListeners w'). e \<notin> set validListenEvents \<longrightarrow>
           set (getClassLogger ''AddonInterface'' (logging cfg) ''warn'' (unknownListenerWarning e))
             \<subseteq> set (hostLog w'))"
proof -
  note r = newAddonInterface_returned [OF assms]
  from r(1) have d: "drop (length (installed w)) (installed w') =
      filter (\<lambda>e. e \<in> set validListenEvents) (interfaceListeners w')" by simp
  from r(2) obtain before where hl: "hostLog w' = before @
           concat (map (\<lambda>e.
             if e \<in> set validListenEvents
             then getClassLogger ''AddonInterface'' (logging cfg) ''info'' [''Installed listener '' @ quoted e]
             else getClassLogger ''AddonInterface'' (logging cfg) ''warn''
                    [''Ignore definition for unknown event listener: '' @ quoted e
                       @ ''! Use one of '' @ quoted (joinArgs validListenEvents)]) (interfaceListeners w'))
           @ getClassLogger ''AddonInterface'' (logging cfg) ''info'' [''Addons loaded and initialized'']"
    by blast
  have warn: "set (getClassLogger ''AddonInterface'' (logging cfg) ''warn'' (unknownListenerWarning e))
             \<subseteq> set (hostLog w')"
    if "e \<in> set (interfaceListeners w')" "e \<notin> set validListenEvents" for e
    using that by (subst hl) (force simp: unknownListenerWarning_def)
  from r(1) d warn show ?thesis by auto
qed

text \<open>
  A run of C7: the addon \<open>clock\<close> subscribes to \<open>newImage\<close> and to the unknown \<open>tick\<close>;
  only \<open>newImage\<close> gets a handler, and \<open>tick\<close> gets the warning.
\<close>

theorem C7_witness:
  "fst (newAddonInterface exampleHost [] exampleConfiguration freshWorld) = None
   \<and> interfaceListeners (snd (newAddonInterface exampleHost [] exampleConfiguration freshWorld)) = [''newImage'', ''tick'']
   \<and> installed (snd (newAddonInterface exampleHost [] exampleConfiguration freshWorld)) = [''newImage'']
   \<and> (''warn'', ''[AddonInterface] '' @ joinArgs (unknownListenerWarning ''tick''))
        \<in> set (hostLog (snd (newAddonInterface exampleHost [] exampleConfiguration freshWorld)))"
proof -
  define w' where "w' = snd (newAddonInterface exampleHost [] exampleConfiguration freshWorld)"
  have f: "fst (newAddonInterface exampleHost [] exampleConfiguration freshWorld) = None"
    by (simp add: model_defs example_defs Let_def)
  then have n: "newAddonInterface exampleHost [] exampleConfiguration freshWorld = (None, w')"
    by (simp add: w'_def prod_eq_iff)
  have ls: "interfaceListeners w' = [''newImage'', ''tick'']"
    unfolding w'_def by (simp add: model_defs example_defs Let_def)
  from C7_installed_within_vocabulary [OF n]
  have i: "installed w' = installed freshWorld @ filter (\<lambda>e. e \<in> set validListenEvents) (interfaceListeners w')"
    and g: "\<forall>e \<in> set (interfaceListeners w'). e \<notin> set validListenEvents \<longrightarrow>
           set (getClassLogger ''AddonInterface'' (logging exampleConfiguration) ''warn'' (unknownListenerWarning e))
             \<subseteq> set (hostLog w')"
    by blast+
  from i ls have "installed w' = [''newImage'']" by (simp add: freshWorld_def validListenEvents_def)
  moreover from g ls have "(''warn'', ''[AddonInterface] '' @ joinArgs (unknownListenerWarning ''tick'')) \<in> set (hostLog w')"
    by (simp add: validListenEvents_def getClassLogger_def exampleConfiguration_def)
  ultimately show ?thesis using f ls by (simp add: w'_def)
qed

subsection \<open>C8: the enable command\<close>

text \<open>
  C8. The claim: enabling an addon whose entry has \<open>enabled: false\<close> sets the flag and
  calls the persistence write, so that \<open>disable\<close> followed by \<open>enable\<close> writes twice.
  The code sets the flag in memory only: \<open>updateConfig\<close> stays \<open>false\<close> for an entry
  that exists, so \<open>writeConfig\<close> is not called and the command reports that the addon
  was already enabled; \<open>disable\<close> followed by \<open>enable\<close> writes once, the disabled
  state. The run is on a host that binds \<open>path\<close> and has the addon's folder; on a host
  that does not bind \<open>path\<close> the command ends with a \<open>ReferenceError\<close> before it
  looks at the configuration, and nothing is written either.
\<close>

theorem C8_enable_of_disabled_addon_is_not_written:
  "addonControl exampleSystem (Some ''enable'') (Some ''addonA'') [] disabledControl =
     (Returned,
      \<lparr> config = [(''addonA'', CfgObject [(''enabled'', VBool True)])],
        console = [(''info'', [''Nothing to do. Addon '' @ quoted ''addonA'' @ '' was already enabled.''])],
        written = [] \<rparr>)
   \<and> written (snd (addonControl exampleSystem (Some ''enable'') (Some ''addonA'') []
        (snd (addonControl exampleSystem (Some ''disable'') (Some ''addonA'') [] enabledControl))))
       = [[(''addonA'', CfgObject [(''enabled'', VBool False)])]]
   \<and> addonControl (exampleSystem \<lparr> path := None \<rparr>) (Some ''enable'') (Some ''addonA'') [] disabledControl =
       (Threw (ReferenceError ''path is not defined''), disabledControl)"
  by (simp add: control_defs lookupAddon_def exampleSystem_def disabledControl_def enabledControl_def Let_def)

text \<open>
  The three cases of \<open>enable\<close> for any host that binds \<open>path\<close> and has the folder, and
  the case of \<open>disable\<close> that writes: an absent entry is created and written, an
  enabled one is left alone, a disabled one is changed and not written.
\<close>

lemma enable_absent_entry:
  assumes "given \<noteq> []"
    and "path sys = Some resolve"
    and "existsSync sys (resolve (dirname sys @ ''/../addons/'' @ removeInvalidAddonNameChars given))"
    and "writeConfig sys = None"
    and "lookupAddon (config c) (removeInvalidAddonNameChars given) = None"
  shows "fst (addonControl sys (Some ''enable'') (Some given) args c) = Returned"
    and "config (snd (addonControl sys (Some ''enable'') (Some given) args c)) =
           config c @ [(removeInvalidAddonNameChars given, CfgObject [(''enabled'', VBool True)])]"
    and "written (snd (addonControl sys (Some ''enable'') (Some given) args c)) =
           written c @ [config c @ [(removeInvalidAddonNameChars given, CfgObject [(''enabled'', VBool True)])]]"
  using assms lookupAddon_undefined [OF assms(5)] by (simp_all add: control_defs Let_def update_absent)

lemma enable_enabled_entry:
  assumes "given \<noteq> []"
    and "path sys = Some resolve"
    and "existsSync sys (resolve (dirname sys @ ''/../addons/'' @ removeInvalidAddonNameChars given))"
    and "map_of (config c) (removeInvalidAddonNameChars given) = Some (CfgObject ob)"
    and "map_of ob ''enabled'' \<noteq> Some (VBool False)"
  shows "fst (addonControl sys (Some ''enable'') (Some given) args c) = Returned"
    and "config (snd (addonControl sys (Some ''enable'') (Some given) args c)) = config c"
    and "written (snd (addonControl sys (Some ''enable'') (Some given) args c)) = written c"
  using assms lookupAddon_own [OF assms(4)] by (simp_all add: control_defs Let_def)

lemma enable_disabled_entry:
  assumes "given \<noteq> []"
    and "path sys = Some resolve"
    and "existsSync sys (resolve (dirname sys @ ''/../addons/'' @ removeInvalidAddonNameChars given))"
    and "map_of (config c) (removeInvalidAddonNameChars given) = Some (CfgObject ob)"
    and "map_of ob ''enabled'' = Some (VBool False)"
  shows "fst (addonControl sys (Some ''enable'') (Some given) args c) = Returned"
    and "config (snd (addonControl sys (Some ''enable'') (Some given) args c)) =
           AList.update (removeInvalidAddonNameChars given)
             (CfgObject (AList.update ''enabled'' (VBool True) ob)) (config c)"
    and "written (snd (addonControl sys (Some ''enable'') (Some given) args c)) = written c"
  using assms lookupAddon_own [OF assms(4)] by (simp_all add: control_defs Let_def)

lemma disable_enabled_entry:
  assumes "given \<noteq> []"
    and "path sys = Some resolve"
    and "writeConfig sys = None"
    and "map_of (config c) (removeInvalidAddonNameChars given) = Some (CfgObject ob)"
    and "map_of ob ''enabled'' \<noteq> Some (VBool False)"
  shows "fst (addonControl sys (Some ''disable'') (Some given) args c) = Returned"
    and "config (snd (addonControl sys (Some ''disable'') (Some given) args c)) =
           AList.update (removeInvalidAddonNameChars given)
             (CfgObject (AList.update ''enabled'' (VBool False) ob)) (config c)"
    and "written (snd (addonControl sys (Some ''disable'') (Some given) args c)) =
           written c @ [AList.update (removeInvalidAddonNameChars given)
             (CfgObject (AList.update ''enabled'' (VBool False) ob)) (config c)]"
  using assms lookupAddon_own [OF assms(4)] by (simp_all add: control_defs Let_def)

subsection \<open>C9: the status command\<close>

text \<open>
  C9. The claim: \<open>status\<close>, also without an addon name, prints the table and never
  ends abnormally. The code passes the missing name to the sanitiser before it does
  anything else: \<open>undefined.replace\<close> throws a \<open>TypeError\<close> that nothing catches, on
  every host and configuration, and nothing is printed. With a name, on a host that
  does not bind \<open>path\<close>, the table is printed and then the \<open>ReferenceError\<close> of
  \<open>path.resolve\<close> leaves the method.
\<close>

theorem C9_status_without_name_throws:
  "addonControl sys (Some ''status'') None args c =
     (Threw (TypeError (''Cannot read property '' @ quoted ''replace'' @ '' of undefined'')), c)
   \<and> addonControl (exampleSystem \<lparr> path := None \<rparr>) (Some ''status'') (Some ''addonA'') [] enabledControl =
       (Threw (ReferenceError ''path is not defined''),
        enabledControl \<lparr> console :=
          [(''log'', [statusHeader @ padEnd 50 CHR '' '' ''addonA'' @ '' | true\<newline>''])] \<rparr>)"
  by (simp add: control_defs lookupAddon_def exampleSystem_def enabledControl_def booleanString_def)

text \<open>
  With a name, \<open>status\<close> prints the table, one row for each declared name, and returns
  on a host that binds \<open>path\<close>; on a host that does not, the \<open>ReferenceError\<close> of
  \<open>path.resolve\<close> leaves the method after the table is printed.
\<close>

lemma statusRows_objects:
  "\<forall>(k, v) \<in> set cfg. \<exists>ob. v = CfgObject ob \<Longrightarrow> distinct (map fst cfg) \<Longrightarrow> set ks \<subseteq> set (map fst cfg) \<Longrightarrow>
   statusRows cfg ks =
     Inr (concat (map (\<lambda>k. padEnd 50 CHR '' '' k @ '' | ''
            @ booleanString (getProperty (lookupAddon cfg k) ''enabled'' \<noteq> Inr (Some (VBool False))) @ ''\<newline>'') ks))"
proof (induction ks)
  case Nil
  show ?case by simp
next
  case (Cons k ks)
  from Cons.prems(3) obtain v where kv: "(k, v) \<in> set cfg" by auto
  with Cons.prems(1) obtain ob where "v = CfgObject ob" by auto
  with kv Cons.prems(2) have "map_of cfg k = Some (CfgObject ob)" by simp
  then have "lookupAddon cfg k = Some (CfgObject ob)" by (rule lookupAddon_own)
  with Cons show ?case by simp
qed

lemma status_with_name_prints:
  assumes "path sys = Some resolve"
    and "statusRows (config c) (map fst (config c)) = Inr rows"
  shows "addonControl sys (Some ''status'') (Some given) args c =
           (Returned, c \<lparr> console := console c @ [(''log'', [statusHeader @ rows])] \<rparr>)"
  using assms by (simp add: control_defs)

lemma status_without_path_binding:
  "path sys = None \<Longrightarrow>
   addonControl sys (Some ''status'') (Some ''addonA'') [] enabledControl =
     (Threw (ReferenceError ''path is not defined''),
      enabledControl \<lparr> console := [(''log'', [statusHeader @ padEnd 50 CHR '' '' ''addonA'' @ '' | true\<newline>''])] \<rparr>)"
  by (simp add: control_defs lookupAddon_def enabledControl_def booleanString_def)


subsection \<open>C10: a declared name the sanitiser changes\<close>

text \<open>
  C10 as stated fails: a declared name that the sanitiser changes may be sanitised to
  another declared name. Then the lookup finds that other entry, nothing is thrown, and
  here the other addon is loaded a second time.
\<close>

theorem C10_shadowed_name_counterexample:
  "''clock./ '' \<in> set (map fst (addons shadowedConfiguration))
   \<and> removeInvalidAddonNameChars ''clock./ '' \<noteq> ''clock./ ''
   \<and> lookupAddon (addons shadowedConfiguration) (removeInvalidAddonNameChars ''clock./ '') = Some (CfgObject [])
   \<and> fst (newAddonInterface exampleHost [] shadowedConfiguration freshWorld) = None
   \<and> map ab_name (loadedAddons (snd (newAddonInterface exampleHost [] shadowedConfiguration freshWorld)))
       = [''clock'', ''clock'']"
  by (simp add: model_defs example_defs loadedAddons_def isWhiteSpace_def Let_def)

text \<open>
  C10, amended. For every declared name whose sanitised form is no property of the
  addons configuration, neither an own one nor one it inherits (the sanitiser has
  changed such a name), the lookup under the sanitised name gives \<open>undefined\<close>, the
  read of \<open>enabled\<close> throws a \<open>TypeError\<close> outside the loader's \<open>try\<close>, and the
  construction of the registry, through the constructor and through the entry point,
  ends with a \<open>TypeError\<close>: that one, or the one an earlier declared name ended the
  loader with.
\<close>

theorem C10_unresolved_name_aborts_construction:
  assumes "addonInterfaceObj w = None"
    and "key \<in> set (map fst (addons cfg))"
    and "lookupAddon (addons cfg) (removeInvalidAddonNameChars key) = None"
  shows "removeInvalidAddonNameChars key \<noteq> key
     \<and> (\<exists>m. getProperty (lookupAddon (addons cfg) (removeInvalidAddonNameChars key)) ''enabled'' = Inl (TypeError m)
            \<and> (\<forall>w0. loadConfigured h cfg imgs key w0 = (Some (TypeError m), w0)))
     \<and> (\<exists>m w'. newAddonInterface h imgs cfg w = (Some (TypeError m), w')
              \<and> initAddonInterface h imgs cfg w = (Inl (TypeError m), w'))"
proof -
  from assms(2) have "map_of (addons cfg) key \<noteq> None"
    by (simp add: map_of_eq_None_iff)
  then have "lookupAddon (addons cfg) key \<noteq> None" by (auto simp: lookupAddon_def)
  with assms(3) have changed: "removeInvalidAddonNameChars key \<noteq> key" by auto
  from assms(3) have read: "\<exists>m. getProperty (lookupAddon (addons cfg) (removeInvalidAddonNameChars key)) ''enabled'' = Inl (TypeError m)
            \<and> (\<forall>w0. loadConfigured h cfg imgs key w0 = (Some (TypeError m), w0))"
    by (simp add: loadConfigured_def)
  from assms(3) have "\<not> entryReadable cfg key" by (simp add: entryReadable_def)
  from loadAddons_throws [OF assms(2) this] newAddonInterface_outcome(1) [OF assms(1), of h imgs cfg]
  obtain m where "fst (newAddonInterface h imgs cfg w) = Some (TypeError m)" by metis
  then have "newAddonInterface h imgs cfg w = (Some (TypeError m), snd (newAddonInterface h imgs cfg w))
      \<and> initAddonInterface h imgs cfg w = (Inl (TypeError m), snd (newAddonInterface h imgs cfg w))"
    by (simp add: initAddonInterface_new prod_eq_iff)
  with changed read show ?thesis by blast
qed

text \<open>A run of the amended C10: the declared name \<open>./ evil\<close> is sanitised to \<open>evil\<close>.\<close>

theorem C10_witness:
  "addonInterfaceObj freshWorld = None
   \<and> ''./ evil'' \<in> set (map fst (addons traversalConfiguration))
   \<and> lookupAddon (addons traversalConfiguration) (removeInvalidAddonNameChars ''./ evil'') = None
   \<and> removeInvalidAddonNameChars ''./ evil'' = ''evil''
   \<and> (\<exists>m w'. initAddonInterface exampleHost [] traversalConfiguration freshWorld = (Inl (TypeError m), w'))"
proof -
  have a: "addonInterfaceObj freshWorld = None" by (simp add: freshWorld_def)
  have b: "''./ evil'' \<in> set (map fst (addons traversalConfiguration))"
    by (simp add: traversalConfiguration_def)
  have c: "lookupAddon (addons traversalConfiguration) (removeInvalidAddonNameChars ''./ evil'') = None"
    by (simp add: traversalConfiguration_def isWhiteSpace_def lookupAddon_def objectPrototype_def)
  have d: "removeInvalidAddonNameChars ''./ evil'' = ''evil''" by (simp add: isWhiteSpace_def)
  from C10_unresolved_name_aborts_construction [OF a b c, of exampleHost "[]"] a b c d
  show ?thesis by blast
qed

text \<open>
  A changed name whose sanitised form is a name that every object inherits finds a
  function there: nothing is thrown, and nothing is loaded for it.
\<close>

lemma inherited_name_is_passed_over:
  "removeInvalidAddonNameChars ''to./ String'' = ''toString''
   \<and> lookupAddon [(''to./ String'', CfgObject [])] ''toString'' = Some CfgFunction
   \<and> newAddonInterface exampleHost [] \<lparr> logging = [''error''], addons = [(''to./ String'', CfgObject [])] \<rparr> freshWorld
       = (None, freshWorld \<lparr> addonInterfaceObj :=
            Some \<lparr> ai_addons = [], ai_images = [], ai_listeners = [], ai_logging = [''error''] \<rparr> \<rparr>)"
  by (simp add: model_defs example_defs isWhiteSpace_def Let_def)

end
